theory Spec2Isabelle
  imports Complex_Main "HOL-Library.Sublist" "HOL-Library.Log_Nat"
begin

section \<open>Canvas history (frontend/src/components/DrawingCanvas.tsx)\<close>

text \<open>
  The component keeps two pieces of React state, \<open>history\<close> (initially the empty array) and
  \<open>historyIndex\<close> (initially \<open>-1\<close>), and draws on one canvas element. The pixel content
  of the canvas is an opaque value of type \<open>'img\<close>; \<open>surface = None\<close> stands for
  \<open>canvasRef.current\<close> or its 2d context being unavailable, the case in which every
  operation of the source returns early. Each operation is modelled as one call made after
  the previous call's state updates have been rendered.
\<close>

record 'img DrawingHistory =
  imageData :: 'img
  timestamp :: int

record 'img canvas =
  history :: "'img DrawingHistory list"
  historyIndex :: int
  surface :: "'img option"

datatype js_error = TypeError

text \<open>\<open>xs.slice(0, e)\<close>: a negative end counts from the end of the array.\<close>

definition slice0 :: "'a list \<Rightarrow> int \<Rightarrow> 'a list" where
  "slice0 xs e =
     (let n = int (length xs);
          k = (if e < 0 then max (n + e) 0 else min e n)
      in take (nat k) xs)"

text \<open>\<open>xs[i]\<close>: \<open>undefined\<close> (here \<open>None\<close>) outside the array.\<close>

definition at_index :: "'a list \<Rightarrow> int \<Rightarrow> 'a option" where
  "at_index xs i = (if 0 \<le> i \<and> i < int (length xs) then Some (xs ! nat i) else None)"

text \<open>The state of a mounted component before its first \<open>saveToHistory\<close>.\<close>

definition initial :: "'img \<Rightarrow> 'img canvas" where
  "initial blank = \<lparr>history = [], historyIndex = - 1, surface = Some blank\<rparr>"

text \<open>
  \<open>saveToHistory\<close>, with the reading of \<open>Date.now()\<close> as a parameter. \<open>shift()\<close> drops the
  oldest entry and leaves \<open>historyIndex\<close> as it was; otherwise the index moves to the new
  last entry.
\<close>

definition saveToHistory :: "int \<Rightarrow> 'img canvas \<Rightarrow> 'img canvas" where
  "saveToHistory now s =
     (case surface s of
        None \<Rightarrow> s
      | Some img \<Rightarrow>
          (let newHistory = slice0 (history s) (historyIndex s + 1)
                              @ [\<lparr>imageData = img, timestamp = now\<rparr>]
           in if length newHistory > 50
              then s\<lparr>history := tl newHistory\<rparr>
              else s\<lparr>history := newHistory, historyIndex := int (length newHistory) - 1\<rparr>))"

text \<open>
  \<open>undo\<close> and \<open>redo\<close>. Reading \<open>.imageData\<close> of an entry outside the array throws a
  \<open>TypeError\<close> after \<open>setHistoryIndex\<close> has been called; the first component of the result is
  the thrown error, if any, the second the state after the call.
\<close>

definition undo :: "'img canvas \<Rightarrow> js_error option \<times> 'img canvas" where
  "undo s =
     (if historyIndex s > 0 then
        (case surface s of
           None \<Rightarrow> (None, s)
         | Some _ \<Rightarrow>
             (let s' = s\<lparr>historyIndex := historyIndex s - 1\<rparr>
              in case at_index (history s) (historyIndex s - 1) of
                   None \<Rightarrow> (Some TypeError, s')
                 | Some h \<Rightarrow> (None, s'\<lparr>surface := Some (imageData h)\<rparr>)))
      else (None, s))"

definition redo :: "'img canvas \<Rightarrow> js_error option \<times> 'img canvas" where
  "redo s =
     (if historyIndex s < int (length (history s)) - 1 then
        (case surface s of
           None \<Rightarrow> (None, s)
         | Some _ \<Rightarrow>
             (let s' = s\<lparr>historyIndex := historyIndex s + 1\<rparr>
              in case at_index (history s) (historyIndex s + 1) of
                   None \<Rightarrow> (Some TypeError, s')
                 | Some h \<Rightarrow> (None, s'\<lparr>surface := Some (imageData h)\<rparr>)))
      else (None, s))"

definition canUndo :: "'img canvas \<Rightarrow> bool" where
  "canUndo s = (historyIndex s > 0)"

definition canRedo :: "'img canvas \<Rightarrow> bool" where
  "canRedo s = (historyIndex s < int (length (history s)) - 1)"

text \<open>
  The entry the component treats as the current one: the entry at \<open>historyIndex\<close>, which
  \<open>draw\<close> puts back on the canvas in shape mode when \<open>historyIndex >= 0\<close>.
\<close>

definition current :: "'img canvas \<Rightarrow> 'img DrawingHistory option" where
  "current s = (if historyIndex s \<ge> 0 then at_index (history s) (historyIndex s) else None)"

text \<open>
  A stroke leaves the canvas showing \<open>img\<close> (nothing happens without a canvas), and
  \<open>stopDrawing\<close> then calls \<open>saveToHistory\<close>: one commit of the snapshot \<open>img\<close>.
\<close>

definition paint :: "'img \<Rightarrow> 'img canvas \<Rightarrow> 'img canvas" where
  "paint img s = (case surface s of None \<Rightarrow> s | Some _ \<Rightarrow> s\<lparr>surface := Some img\<rparr>)"

definition commit :: "'img \<Rightarrow> int \<Rightarrow> 'img canvas \<Rightarrow> 'img canvas" where
  "commit img now s = saveToHistory now (paint img s)"

definition snapshot_of :: "'img \<times> int \<Rightarrow> 'img DrawingHistory" where
  "snapshot_of c = \<lparr>imageData = fst c, timestamp = snd c\<rparr>"

fun commits :: "('img \<times> int) list \<Rightarrow> 'img canvas \<Rightarrow> 'img canvas" where
  "commits [] s = s"
| "commits (c # cs) s = commits cs (commit (fst c) (snd c) s)"

text \<open>The invariant of the data model: empty before the first commit, else a cursor inside
  a history of at most 50 entries.\<close>

definition history_ok :: "'img canvas \<Rightarrow> bool" where
  "history_ok s =
     (if history s = [] then historyIndex s = - 1
      else 0 \<le> historyIndex s \<and> historyIndex s < int (length (history s))
           \<and> length (history s) \<le> 50)"

section \<open>JavaScript strings and numbers\<close>

text \<open>
  A JavaScript string is a sequence of UTF-16 code units; \<open>length\<close>, \<open>startsWith\<close>,
  \<open>includes\<close> and \<open>trim\<close> work on code units. The Chinese literals of the source are written
  as their code units (all of them are in the basic plane, the emoji of the log lines are
  surrogate pairs).
\<close>

type_synonym jsstring = "nat list"

definition ascii :: "string \<Rightarrow> jsstring" where
  "ascii s = map of_char s"

definition startsWith :: "jsstring \<Rightarrow> jsstring \<Rightarrow> bool" where
  "startsWith s p = (take (length p) s = p)"

fun str_includes :: "jsstring \<Rightarrow> jsstring \<Rightarrow> bool" where
  "str_includes [] sub = (sub = [])"
| "str_includes (c # cs) sub = (startsWith (c # cs) sub \<or> str_includes cs sub)"

text \<open>White space and line terminators removed by \<open>String.prototype.trim\<close>.\<close>

definition isWhiteSpace :: "nat \<Rightarrow> bool" where
  "isWhiteSpace c =
     (c \<in> set [0x0009, 0x000A, 0x000B, 0x000C, 0x000D, 0x0020, 0x00A0, 0x1680,
               0x2028, 0x2029, 0x202F, 0x205F, 0x3000, 0xFEFF]
      \<or> (0x2000 \<le> c \<and> c \<le> 0x200A))"

definition trim :: "jsstring \<Rightarrow> jsstring" where
  "trim s = rev (dropWhile isWhiteSpace (rev (dropWhile isWhiteSpace s)))"

text \<open>
  Numbers. A number literal of the source such as \<open>0.7\<close> is written as the real of that
  decimal notation. A value of \<open>Math.random()\<close> is a double from 0 (inclusive) to 1
  (exclusive): a number \<open>m / 2^s\<close> with \<open>m < 2^53\<close> and \<open>53 \<le> s \<le> 1074\<close>, and every such
  number is one. Arithmetic on it is the arithmetic of doubles: the exact result rounded to
  53 significant bits, ties to the even significand. \<open>round_sig\<close> does this rounding on a
  natural number, which stands for a multiple of \<open>2^-s\<close>.
\<close>

typedef rand = "{(m :: nat, s :: nat). m < 2 ^ 53 \<and> 53 \<le> s \<and> s \<le> 1074}"
  by (rule exI[of _ "(0, 53)"]) simp

setup_lifting type_definition_rand

lift_definition rand_mantissa :: "rand \<Rightarrow> nat" is fst .

lift_definition rand_scale :: "rand \<Rightarrow> nat" is snd .

definition rand_value :: "rand \<Rightarrow> real" where
  "rand_value r = real (rand_mantissa r) / 2 ^ rand_scale r"

text \<open>Three values of \<open>Math.random()\<close>: 0, 1/2 and 3752999689475413 / 2^52.\<close>

lift_definition rand_zero :: rand is "(0, 53)"
  by simp

lift_definition rand_half :: rand is "(2 ^ 52, 53)"
  by simp

lift_definition rand_tie :: rand is "(7505999378950826, 53)"
  by simp

definition round_sig :: "nat \<Rightarrow> nat" where
  "round_sig N =
     (let p = 2 ^ (floorlog 2 N - 53);
          q = N div p;
          rest = N mod p
      in (if 2 * rest > p \<or> (2 * rest = p \<and> odd q) then q + 1 else q) * p)"

text \<open>
  The double \<open>Math.random() * n\<close> and the double \<open>c + Math.random() * n\<close> for natural
  numbers \<open>n\<close> and \<open>c\<close>, both as multiples of \<open>2^-s\<close>; \<open>random_index n r\<close> is
  \<open>Math.floor(Math.random() * n)\<close>.
\<close>

definition fl_times :: "rand \<Rightarrow> nat \<Rightarrow> nat" where
  "fl_times r n = round_sig (rand_mantissa r * n)"

definition fl_offset_times :: "nat \<Rightarrow> rand \<Rightarrow> nat \<Rightarrow> nat" where
  "fl_offset_times c r n = round_sig (c * 2 ^ rand_scale r + fl_times r n)"

definition random_index :: "nat \<Rightarrow> rand \<Rightarrow> nat" where
  "random_index n r = fl_times r n div 2 ^ rand_scale r"

section \<open>Server-side AIService\<close>

text \<open>
  The class \<open>AIService\<close> that the routes import from \<open>services/ai.service\<close>; in this source
  tree its text is the last part of \<open>backend/src/middleware/errorHandler.ts\<close>. The shared
  result type \<open>AIGuessResponse\<close> is declared in \<open>types/game\<close>; its optional fields are
  options here. No code of either service assigns the field \<open>error\<close>.
\<close>

record AIGuessResponse =
  guess :: jsstring
  confidence :: real
  processingTime :: real
  suggestions :: "jsstring list option"
  success :: bool
  error :: "jsstring option"

text \<open>A thrown value: an \<open>Error\<close> object with its message, or something that is not an
  \<open>Error\<close>.\<close>

datatype thrown = ErrorObj jsstring | OtherValue

text \<open>
  What \<open>openai.chat.completions.create\<close> does, as seen by the \<open>try\<close> block of
  \<open>callOpenAI\<close>: it resolves, and \<open>response.choices[0]?.message?.content\<close> is a string or
  missing (\<open>None\<close>), or something inside the block throws.
\<close>

datatype create_result = Resolves "jsstring option" | Rejects thrown

text \<open>The moment (in ms after the start of \<open>guessImage\<close>) at which a promise settles, if ever.\<close>

datatype 'a settles = At nat 'a | Never

text \<open>
  The environment variables \<open>guessImage\<close> reads. \<open>OPENAI_API_KEY\<close> is a string or unset.
  \<open>AI_TIMEOUT\<close> is \<open>None\<close> when the variable is unset or empty, else what \<open>parseInt\<close>
  makes of it: an integer or \<open>NaN\<close>.
\<close>

datatype js_int = Num int | NaN

record env =
  OPENAI_API_KEY :: "jsstring option"
  AI_TIMEOUT :: "js_int option"

text \<open>The literals of the service. In the order of the definitions: "AI recognition timed
  out", "unknown error", "OpenAI client not initialised", "cannot recognise the picture",
  "API authentication failed, check the API key", "API rate limit, retry later", "API quota
  exhausted", and the three keywords "timed out", "authentication failed", "rate limit" that
  \<open>guessImage\<close> looks for in a message.\<close>

definition msg_timeout :: jsstring where
  "msg_timeout = [0x0041, 0x0049, 0x8BC6, 0x522B, 0x8D85, 0x65F6]"

definition msg_unknown :: jsstring where
  "msg_unknown = [0x672A, 0x77E5, 0x9519, 0x8BEF]"

definition msg_not_initialized :: jsstring where
  "msg_not_initialized = [0x004F, 0x0070, 0x0065, 0x006E, 0x0041, 0x0049, 0x5BA2, 0x6237,
     0x7AEF, 0x672A, 0x521D, 0x59CB, 0x5316]"

definition msg_unrecognized :: jsstring where
  "msg_unrecognized = [0x65E0, 0x6CD5, 0x8BC6, 0x522B, 0x56FE, 0x7247, 0x5185, 0x5BB9]"

definition msg_auth :: jsstring where
  "msg_auth = [0x0041, 0x0050, 0x0049, 0x8BA4, 0x8BC1, 0x5931, 0x8D25, 0xFF0C, 0x8BF7, 0x68C0,
     0x67E5, 0x0041, 0x0050, 0x0049, 0x5BC6, 0x94A5]"

definition msg_rate_limit :: jsstring where
  "msg_rate_limit = [0x0041, 0x0050, 0x0049, 0x8C03, 0x7528, 0x9891, 0x7387, 0x9650, 0x5236,
     0xFF0C, 0x8BF7, 0x7A0D, 0x540E, 0x91CD, 0x8BD5]"

definition msg_quota :: jsstring where
  "msg_quota = [0x0041, 0x0050, 0x0049, 0x914D, 0x989D, 0x4E0D, 0x8DB3]"

definition kw_timeout :: jsstring where
  "kw_timeout = [0x8D85, 0x65F6]"

definition kw_auth_failed :: jsstring where
  "kw_auth_failed = [0x8BA4, 0x8BC1, 0x5931, 0x8D25]"

definition kw_rate_limit :: jsstring where
  "kw_rate_limit = [0x9891, 0x7387, 0x9650, 0x5236]"

text \<open>The three lines the \<open>catch\<close> block of \<open>guessImage\<close> may log, and the prefix and the
  default reason ("based on image feature analysis") of the line logged by
  \<open>getIntelligentMockResponse\<close>.\<close>

definition log_timeout :: jsstring where
  "log_timeout = [0xD83D, 0xDD04, 0x0020, 0x0041, 0x0049, 0x0020, 0x0041, 0x0050, 0x0049,
     0x0020, 0x8D85, 0x65F6, 0xFF0C, 0x81EA, 0x52A8, 0x4F7F, 0x7528, 0x667A, 0x80FD, 0x5206,
     0x6790, 0x54CD, 0x5E94]"

definition log_auth_failed :: jsstring where
  "log_auth_failed = [0xD83D, 0xDD11, 0x0020, 0x0041, 0x0050, 0x0049, 0x0020, 0x8BA4, 0x8BC1,
     0x5931, 0x8D25, 0xFF0C, 0x68C0, 0x67E5, 0x0020, 0x0041, 0x0050, 0x0049, 0x0020, 0x5BC6,
     0x94A5, 0x914D, 0x7F6E]"

definition log_rate_limit :: jsstring where
  "log_rate_limit = [0x23F1, 0xFE0F, 0x0020, 0x0041, 0x0050, 0x0049, 0x0020, 0x9891, 0x7387,
     0x9650, 0x5236, 0xFF0C, 0x8BF7, 0x7A0D, 0x540E, 0x91CD, 0x8BD5]"

definition mock_log_prefix :: jsstring where
  "mock_log_prefix = [0xD83C, 0xDFAD, 0x0020, 0x4F7F, 0x7528, 0x667A, 0x80FD, 0x5206, 0x6790,
     0x54CD, 0x5E94, 0x003A, 0x0020]"

definition mock_log_default :: jsstring where
  "mock_log_default = [0x57FA, 0x4E8E, 0x56FE, 0x50CF, 0x7279, 0x5F81, 0x5206, 0x6790]"

text \<open>
  The pools of \<open>getIntelligentMockResponse\<close>: four phrases for large images ("a complex
  painting", "a landscape photo", "a detailed pattern", "an abstract artwork"), four for
  small ones ("a simple icon", "a small pattern", "a symbol", "a mark"), twelve everyday
  objects otherwise (cat, flower, mountain, car, bird, tree, moon, house, apple, dog, person,
  animal), and the fixed suggestions ("object recognition", "pattern analysis", "shape
  features", "colour composition").
\<close>

definition largeImageGuesses :: "jsstring list" where
  "largeImageGuesses =
     [[0x4E00, 0x5E45, 0x590D, 0x6742, 0x7684, 0x753B, 0x4F5C],
      [0x4E00, 0x5F20, 0x98CE, 0x666F, 0x7167, 0x7247],
      [0x4E00, 0x4E2A, 0x8BE6, 0x7EC6, 0x7684, 0x56FE, 0x6848],
      [0x4E00, 0x5E45, 0x62BD, 0x8C61, 0x827A, 0x672F]]"

definition smallImageGuesses :: "jsstring list" where
  "smallImageGuesses =
     [[0x4E00, 0x4E2A, 0x7B80, 0x5355, 0x7684, 0x56FE, 0x6807],
      [0x4E00, 0x4E2A, 0x5C0F, 0x56FE, 0x6848],
      [0x4E00, 0x4E2A, 0x7B26, 0x53F7],
      [0x4E00, 0x4E2A, 0x6807, 0x8BB0]]"

definition defaultGuesses :: "jsstring list" where
  "defaultGuesses =
     [[0x4E00, 0x53EA, 0x732B],
      [0x4E00, 0x6735, 0x82B1],
      [0x4E00, 0x5EA7, 0x5C71],
      [0x4E00, 0x8F86, 0x6C7D, 0x8F66],
      [0x4E00, 0x53EA, 0x9E1F],
      [0x4E00, 0x68F5, 0x6811],
      [0x4E00, 0x8F6E, 0x6708, 0x4EAE],
      [0x4E00, 0x680B, 0x623F, 0x5B50],
      [0x4E00, 0x4E2A, 0x82F9, 0x679C],
      [0x4E00, 0x53EA, 0x72D7],
      [0x4E00, 0x4E2A, 0x4EBA, 0x7269],
      [0x4E00, 0x4E2A, 0x52A8, 0x7269]]"

definition smartSuggestions :: "jsstring list" where
  "smartSuggestions =
     [[0x7269, 0x4F53, 0x8BC6, 0x522B],
      [0x56FE, 0x6848, 0x5206, 0x6790],
      [0x5F62, 0x72B6, 0x7279, 0x5F81],
      [0x989C, 0x8272, 0x6784, 0x6210]]"

text \<open>
  \<open>getIntelligentMockResponse(imageData, reason)\<close> (the image is \<open>img\<close> here), with the two values of \<open>Math.random()\<close>
  it draws as parameters. The reason is only written to the console:
  \<open>mock_log_line reason\<close> is that line.
\<close>

definition mock_log_line :: "jsstring option \<Rightarrow> jsstring" where
  "mock_log_line reason =
     mock_log_prefix @ (case reason of
                          None \<Rightarrow> mock_log_default
                        | Some r \<Rightarrow> if r = [] then mock_log_default else r)"

definition getIntelligentMockResponse ::
  "jsstring \<Rightarrow> jsstring option \<Rightarrow> rand \<Rightarrow> rand \<Rightarrow> AIGuessResponse" where
  "getIntelligentMockResponse img reason r1 r2 =
     (let imageSize = length img;
          hasBase64Prefix = startsWith img (ascii ''data:image/'');
          guessPool = (if imageSize > 100000 then largeImageGuesses
                       else if imageSize < 10000 then smallImageGuesses
                       else defaultGuesses);
          intelligentGuess = guessPool ! random_index (length guessPool) r1;
          confidence = (if hasBase64Prefix then 0.7 else 0.6)
      in \<lparr>guess = intelligentGuess,
          confidence = confidence,
          processingTime = real (fl_offset_times 500 r2 1000) / 2 ^ rand_scale r2,
          suggestions = Some smartSuggestions,
          success = True,
          error = None\<rparr>)"

text \<open>
  \<open>generateSmartSuggestions\<close>: the keywords are cat, dog, bird; flower, tree, mountain; car,
  house; person. The suggestion groups are (animal, pet, mammal), (nature, plant,
  landscape), (article, vehicle, building), (person, face, portrait), and the general
  group (object, pattern, shape).
\<close>

definition generateSmartSuggestions :: "jsstring \<Rightarrow> jsstring list" where
  "generateSmartSuggestions g =
     (let s1 = (if str_includes g [0x732B] \<or> str_includes g [0x72D7] \<or> str_includes g [0x9E1F]
                then [[0x52A8, 0x7269], [0x5BA0, 0x7269], [0x54FA, 0x4E73, 0x52A8, 0x7269]]
                else []);
          s2 = s1 @ (if str_includes g [0x82B1] \<or> str_includes g [0x6811] \<or> str_includes g [0x5C71]
                     then [[0x81EA, 0x7136], [0x690D, 0x7269], [0x98CE, 0x666F]]
                     else []);
          s3 = s2 @ (if str_includes g [0x8F66] \<or> str_includes g [0x623F, 0x5B50]
                     then [[0x7269, 0x54C1], [0x4EA4, 0x901A, 0x5DE5, 0x5177], [0x5EFA, 0x7B51]]
                     else []);
          s4 = s3 @ (if str_includes g [0x4EBA]
                     then [[0x4EBA, 0x7269], [0x4EBA, 0x8138], [0x8096, 0x50CF]]
                     else []);
          s5 = (if length s4 = 0
                then s4 @ [[0x7269, 0x4F53], [0x56FE, 0x6848], [0x5F62, 0x72B6]]
                else s4)
      in take 4 s5)"

text \<open>
  \<open>callOpenAI\<close>, a promise that settles when the remote call does. Without a client it
  throws at once, before the \<open>try\<close> block and without calling the remote. Inside the block a
  resolved call gives the guess (the trimmed content, or the fixed text when the content is
  missing or trims to the empty string), a confidence read off the length of the guess, and
  the suggestions; anything thrown is rethrown, an \<open>Error\<close> whose message contains
  \<open>401\<close>, \<open>429\<close> or \<open>quota\<close> as a new \<open>Error\<close> with a fixed message.
\<close>

definition callOpenAI ::
  "bool \<Rightarrow> create_result settles \<Rightarrow> (thrown + (jsstring \<times> real \<times> jsstring list)) settles" where
  "callOpenAI has_client remote =
     (if \<not> has_client then At 0 (Inl (ErrorObj msg_not_initialized))
      else case remote of
        Never \<Rightarrow> Never
      | At t (Resolves content) \<Rightarrow>
          (let trimmed = (case content of None \<Rightarrow> [] | Some c \<Rightarrow> trim c);
               guess = (if trimmed = [] then msg_unrecognized else trimmed);
               confidence = (if length guess > 20 then 0.9
                             else if length guess < 5 then 0.7
                             else 0.8)
           in At t (Inr (guess, confidence, generateSmartSuggestions guess)))
      | At t (Rejects (ErrorObj m)) \<Rightarrow>
          (if str_includes m (ascii ''401'') then At t (Inl (ErrorObj msg_auth))
           else if str_includes m (ascii ''429'') then At t (Inl (ErrorObj msg_rate_limit))
           else if str_includes m (ascii ''quota'') then At t (Inl (ErrorObj msg_quota))
           else At t (Inl (ErrorObj m)))
      | At t (Rejects OtherValue) \<Rightarrow> At t (Inl OtherValue))"

text \<open>
  The delay a Node timer really uses: a delay below 1, above 2147483647 or \<open>NaN\<close> is set
  to 1.
\<close>

definition timer_delay :: "js_int \<Rightarrow> nat" where
  "timer_delay d =
     (case d of NaN \<Rightarrow> 1 | Num t \<Rightarrow> if t < 1 \<or> t > 2147483647 then 1 else nat t)"

text \<open>
  \<open>Promise.race([apiPromise, timeoutPromise])\<close>: the promise that settles first decides.
  The timer rejects with "AI recognition timed out" when its delay has passed; an API promise
  that settles at that very moment or later, or never, loses. The result is the moment of
  the decision and what the \<open>await\<close> yields.
\<close>

definition race ::
  "(thrown + 'a) settles \<Rightarrow> nat \<Rightarrow> nat \<times> (thrown + 'a)" where
  "race apiPromise delay =
     (case apiPromise of
        At t out \<Rightarrow> if t < delay then (t, out) else (delay, Inl (ErrorObj msg_timeout))
      | Never \<Rightarrow> (delay, Inl (ErrorObj msg_timeout)))"

text \<open>
  One run of \<open>guessImage\<close>: the response it resolves with, the number of calls of
  \<open>chat.completions.create\<close> it made, the line its \<open>catch\<close> block logged for a recognised
  kind of error, and the line \<open>getIntelligentMockResponse\<close> logged, if it ran. The last
  field is the moment at which the timeout promise rejects without any handler attached to
  it, if that happens: an unhandled rejection, which ends a Node process (version 15 or
  later) that installs no \<open>unhandledRejection\<close> handler, and this program installs none.
\<close>

record guess_run =
  response :: AIGuessResponse
  remote_calls :: nat
  catch_log :: "jsstring option"
  mock_log :: "jsstring option"
  unhandled_rejection :: "nat option"

text \<open>
  \<open>guessImage\<close>. \<open>has_client\<close> tells whether \<open>this.openai\<close> is set; \<open>remote\<close> is what the
  remote call does when it is made; \<open>Date.now() - startTime\<close> is the moment at which the race
  is decided. The timeout promise is created, and its timer started, before the API key is
  looked at. \<open>Promise.race\<close> attaches handlers to it; the early return without a key does
  not, and then its rejection is unhandled.
\<close>

definition guessImage ::
  "env \<Rightarrow> bool \<Rightarrow> jsstring \<Rightarrow> create_result settles \<Rightarrow> rand \<Rightarrow> rand \<Rightarrow> guess_run" where
  "guessImage e has_client imageBase64 remote r1 r2 =
     (let timeout = (case AI_TIMEOUT e of
                       None \<Rightarrow> Num 60000
                     | Some t \<Rightarrow> t)
      in if OPENAI_API_KEY e = None \<or> OPENAI_API_KEY e = Some [] then
           \<lparr>response = getIntelligentMockResponse imageBase64 None r1 r2,
            remote_calls = 0,
            catch_log = None,
            mock_log = Some (mock_log_line None),
            unhandled_rejection = Some (timer_delay timeout)\<rparr>
         else
           (let apiPromise = callOpenAI has_client remote;
                calls = (if has_client then 1 else 0)
            in case race apiPromise (timer_delay timeout) of
                 (t, Inr (g, c, s)) \<Rightarrow>
                   \<lparr>response = \<lparr>guess = g, confidence = c, processingTime = real t,
                                suggestions = Some s, success = True, error = None\<rparr>,
                    remote_calls = calls,
                    catch_log = None,
                    mock_log = None,
                    unhandled_rejection = None\<rparr>
               | (t, Inl err) \<Rightarrow>
                   (let reason = (case err of ErrorObj m \<Rightarrow> m | OtherValue \<Rightarrow> msg_unknown)
                    in \<lparr>response = (getIntelligentMockResponse imageBase64 (Some reason) r1 r2)
                                     \<lparr>processingTime := real t, success := True\<rparr>,
                        remote_calls = calls,
                        catch_log = (case err of
                                       ErrorObj m \<Rightarrow>
                                         if str_includes m kw_timeout then Some log_timeout
                                         else if str_includes m kw_auth_failed then Some log_auth_failed
                                         else if str_includes m kw_rate_limit then Some log_rate_limit
                                         else None
                                     | OtherValue \<Rightarrow> None),
                        mock_log = Some (mock_log_line (Some reason)),
                        unhandled_rejection = None\<rparr>)))"

section \<open>Client-side AIService (frontend/src/services/aiService.ts)\<close>

text \<open>
  The argument of the constructor is an object literal in which the optional fields
  \<open>timeout\<close> and \<open>model\<close> may be missing, present with the value \<open>undefined\<close>, or given. The
  constructor spreads it over the defaults (30000 ms, the model name
  \<open>gpt-4-vision-preview\<close>), so a field that is present replaces the default even when it is
  \<open>undefined\<close>. In the stored configuration \<open>None\<close> stands for \<open>undefined\<close>.
\<close>

datatype 'a js_field = Absent | Undefined | Given 'a

record AIConfig_literal =
  given_apiUrl :: jsstring
  given_timeout :: "int js_field"
  given_model :: "jsstring js_field"

record AIConfig =
  apiUrl :: jsstring
  timeout :: "int option"
  model :: "jsstring option"

definition AIService_config :: "AIConfig_literal \<Rightarrow> AIConfig" where
  "AIService_config config =
     \<lparr>apiUrl = given_apiUrl config,
      timeout = (case given_timeout config of
                   Absent \<Rightarrow> Some 30000
                 | Undefined \<Rightarrow> None
                 | Given t \<Rightarrow> Some t),
      model = (case given_model config of
                 Absent \<Rightarrow> Some (ascii ''gpt-4-vision-preview'')
               | Undefined \<Rightarrow> None
               | Given m \<Rightarrow> Some m)\<rparr>"

text \<open>The exported instance: \<open>new AIService({apiUrl: defaultApiUrl, timeout: 30000})\<close>.\<close>

definition aiService :: "jsstring \<Rightarrow> AIConfig" where
  "aiService defaultApiUrl =
     AIService_config \<lparr>given_apiUrl = defaultApiUrl, given_timeout = Given 30000,
                       given_model = Absent\<rparr>"

text \<open>
  The delay a browser timer uses for \<open>setTimeout(f, t)\<close>: \<open>t\<close> is converted to a 32-bit
  integer, a negative result counts as 0, and so does \<open>undefined\<close>.
\<close>

definition to_int32 :: "int \<Rightarrow> int" where
  "to_int32 t = (t + 2 ^ 31) mod 2 ^ 32 - 2 ^ 31"

definition browser_delay :: "int option \<Rightarrow> nat" where
  "browser_delay d = (case d of None \<Rightarrow> 0 | Some t \<Rightarrow> nat (max 0 (to_int32 t)))"

text \<open>What \<open>callAIApi\<close> returns (\<open>data.data\<close> of the server's answer).\<close>

record AIServiceResponse =
  sr_guess :: jsstring
  sr_confidence :: real
  sr_suggestions :: "jsstring list option"
  sr_processingTime :: real

text \<open>
  What the network does with the request of \<open>callAIApi\<close>. The \<open>fetch\<close> promise rejects at
  some moment, resolves with the response head at some moment, or stays pending. After
  the head: the status is not ok; or \<open>response.json()\<close> rejects after some time, never
  settles, or yields the data after some time, with its \<open>success\<close> flag and its \<open>data\<close>
  field (\<open>None\<close> when that is missing). Moments are in ms after the start of \<open>guessImage\<close>,
  times after the head in ms.
\<close>

datatype body = NotOk | JsonRejects nat | JsonStalls | Json nat bool "AIServiceResponse option"

datatype fetch_behaviour = FetchRejects nat | FetchResolves nat body | FetchPending

text \<open>
  How the call of \<open>callAIApi\<close> ends for \<open>guessImage\<close>: with the server's data, or with
  something thrown inside the \<open>try\<close> block of \<open>guessImage\<close> (by \<open>callAIApi\<close>, or by reading
  \<open>response.guess\<close> when the data are missing).
\<close>

datatype api_result = ApiReturns AIServiceResponse | ApiThrows

text \<open>
  \<open>callAIApi\<close>. The abort timer is set before the request; when it fires while \<open>fetch\<close> is
  pending, \<open>fetch\<close> rejects. When the head arrives first the timer is cleared, and nothing
  bounds the reading of the body any more.
\<close>

definition callAIApi :: "AIConfig \<Rightarrow> fetch_behaviour \<Rightarrow> api_result settles" where
  "callAIApi config net =
     (let abort_at = browser_delay (timeout config)
      in case net of
           FetchPending \<Rightarrow> At abort_at ApiThrows
         | FetchRejects t \<Rightarrow> if t < abort_at then At t ApiThrows else At abort_at ApiThrows
         | FetchResolves t b \<Rightarrow>
             if t < abort_at then
               (case b of
                  NotOk \<Rightarrow> At t ApiThrows
                | JsonRejects dt \<Rightarrow> At (t + dt) ApiThrows
                | JsonStalls \<Rightarrow> Never
                | Json dt ok data \<Rightarrow>
                    if \<not> ok then At (t + dt) ApiThrows
                    else (case data of
                            None \<Rightarrow> At (t + dt) ApiThrows
                          | Some r \<Rightarrow> At (t + dt) (ApiReturns r)))
             else At abort_at ApiThrows)"

text \<open>
  The ten canned answers of \<open>getMockResponse\<close>, each with its confidence and three
  suggestions: "a cute kitten", "a beautiful sunset view", "a red car", "green trees", "the
  blue sea", "the yellow sun", "a mountain", "a flower", "a dog", "house".
\<close>

definition mockResponses :: "(jsstring \<times> real \<times> jsstring list) list" where
  "mockResponses =
    [([0x4E00, 0x53EA, 0x53EF, 0x7231, 0x7684, 0x732B, 0x54AA], 0.92,
       [[0x732B], [0x5BA0, 0x7269], [0x5C0F, 0x732B]]),
     ([0x7F8E, 0x4E3D, 0x7684, 0x65E5, 0x843D, 0x98CE, 0x666F], 0.88,
       [[0x65E5, 0x843D], [0x98CE, 0x666F], [0x5915, 0x9633]]),
     ([0x4E00, 0x8F86, 0x7EA2, 0x8272, 0x6C7D, 0x8F66], 0.85,
       [[0x6C7D, 0x8F66], [0x8F66, 0x8F86], [0x7EA2, 0x8272]]),
     ([0x7EFF, 0x8272, 0x7684, 0x6811, 0x6728], 0.90,
       [[0x6811], [0x690D, 0x7269], [0x81EA, 0x7136]]),
     ([0x84DD, 0x8272, 0x7684, 0x5927, 0x6D77], 0.87,
       [[0x6D77], [0x6C34], [0x84DD, 0x8272]]),
     ([0x9EC4, 0x8272, 0x7684, 0x592A, 0x9633], 0.94,
       [[0x592A, 0x9633], [0x9633, 0x5149], [0x9EC4, 0x8272]]),
     ([0x4E00, 0x5EA7, 0x5C71], 0.89,
       [[0x5C71], [0x5C71, 0x5CF0], [0x81EA, 0x7136]]),
     ([0x4E00, 0x6735, 0x82B1], 0.91,
       [[0x82B1], [0x690D, 0x7269], [0x7F8E, 0x4E3D]]),
     ([0x4E00, 0x53EA, 0x72D7], 0.93,
       [[0x72D7], [0x5BA0, 0x7269], [0x52A8, 0x7269]]),
     ([0x623F, 0x5B50], 0.86,
       [[0x5EFA, 0x7B51], [0x623F, 0x5C4B], [0x5BB6]])]"

text \<open>
  \<open>getMockResponse\<close> waits for \<open>1000 + Math.random() * 2000\<close> ms (\<open>mock_delay\<close>; the timer
  drops the fraction) and then answers with one of the canned responses; \<open>r1\<close> and \<open>r2\<close>
  are the values of \<open>Math.random()\<close> for the choice and for \<open>processingTime\<close>. The image is
  not looked at.
\<close>

definition mock_delay :: "rand \<Rightarrow> nat" where
  "mock_delay r0 = fl_offset_times 1000 r0 2000 div 2 ^ rand_scale r0"

definition getMockResponse :: "jsstring \<Rightarrow> rand \<Rightarrow> rand \<Rightarrow> AIGuessResponse" where
  "getMockResponse img r1 r2 =
     (case mockResponses ! random_index (length mockResponses) r1 of
        (g, c, s) \<Rightarrow>
          \<lparr>guess = g,
           confidence = c,
           processingTime = real (fl_offset_times 1500 r2 1000) / 2 ^ rand_scale r2,
           suggestions = Some s,
           success = True,
           error = None\<rparr>)"

text \<open>
  One run of the client's \<open>guessImage\<close> that resolves: the response, the number of calls of
  \<open>callAIApi\<close>, and the moment at which it resolves.
\<close>

record client_run =
  client_response :: AIGuessResponse
  api_calls :: nat
  resolved_at :: nat

text \<open>
  The client's \<open>guessImage\<close>, with \<open>isOnlineMode\<close> and the promise of its call of
  \<open>callAIApi\<close> as parameters; \<open>r0\<close>, \<open>r1\<close>, \<open>r2\<close> are the values of \<open>Math.random()\<close> that
  \<open>getMockResponse\<close> draws. \<open>None\<close> means that the promise of \<open>guessImage\<close> never settles.
\<close>

definition client_guessImage ::
  "bool \<Rightarrow> jsstring \<Rightarrow> jsstring \<Rightarrow> api_result settles \<Rightarrow> rand \<Rightarrow> rand \<Rightarrow> rand
     \<Rightarrow> client_run option" where
  "client_guessImage isOnlineMode img mimeType api r0 r1 r2 =
     (if \<not> isOnlineMode then
        Some \<lparr>client_response = getMockResponse img r1 r2, api_calls = 0,
              resolved_at = mock_delay r0\<rparr>
      else case api of
             Never \<Rightarrow> None
           | At t (ApiReturns r) \<Rightarrow>
               Some \<lparr>client_response =
                       \<lparr>guess = sr_guess r,
                        confidence = sr_confidence r,
                        processingTime = real t,
                        suggestions = Some (case sr_suggestions r of None \<Rightarrow> [] | Some l \<Rightarrow> l),
                        success = True,
                        error = None\<rparr>,
                     api_calls = 1,
                     resolved_at = t\<rparr>
           | At t ApiThrows \<Rightarrow>
               Some \<lparr>client_response = getMockResponse img r1 r2, api_calls = 1,
                     resolved_at = t + mock_delay r0\<rparr>)"

text \<open>
  The route \<open>POST /api/ai-guess\<close> answers \<open>{success: true, data: result}\<close> with the result of
  the server's \<open>guessImage\<close>; the client reads \<open>data.data\<close>.
\<close>

definition served :: "AIGuessResponse \<Rightarrow> AIServiceResponse" where
  "served r =
     \<lparr>sr_guess = guess r,
      sr_confidence = confidence r,
      sr_suggestions = suggestions r,
      sr_processingTime = processingTime r\<rparr>"

text \<open>Concrete inputs used to run the model: 51 strokes on an empty history, and a short
  session of three strokes.\<close>

definition fifty_one_commits :: "(nat \<times> int) list" where
  "fifty_one_commits = map (\<lambda>i. (i, int i)) [0..<51]"

definition three_commits :: "(nat \<times> int) list" where
  "three_commits = [(1, 10), (2, 20), (3, 30)]"

section \<open>Auxiliary notions for the statements\<close>

text \<open>The delay of the timeout timer of \<open>guessImage\<close> under an environment, and whether the
  environment holds a (non-empty) API key.\<close>

definition configured_delay :: "env \<Rightarrow> nat" where
  "configured_delay e = timer_delay (case AI_TIMEOUT e of None \<Rightarrow> Num 60000 | Some t \<Rightarrow> t)"

definition key_present :: "env \<Rightarrow> bool" where
  "key_present e = (OPENAI_API_KEY e \<noteq> None \<and> OPENAI_API_KEY e \<noteq> Some [])"

text \<open>The reason the \<open>catch\<close> block of \<open>guessImage\<close> passes to the fallback.\<close>

definition reason_of :: "thrown \<Rightarrow> jsstring" where
  "reason_of err = (case err of ErrorObj m \<Rightarrow> m | OtherValue \<Rightarrow> msg_unknown)"

definition fallback_pools :: "jsstring list" where
  "fallback_pools = largeImageGuesses @ smallImageGuesses @ defaultGuesses"

text \<open>Concrete inputs: an environment with a key and one without, a small data URI, and the
  error of a remote call answered with status 429.\<close>

definition env_with_key :: env where
  "env_with_key = \<lparr>OPENAI_API_KEY = Some (ascii ''sk-test''), AI_TIMEOUT = None\<rparr>"

definition env_without_key :: env where
  "env_without_key = \<lparr>OPENAI_API_KEY = None, AI_TIMEOUT = None\<rparr>"

definition small_png :: jsstring where
  "small_png = ascii ''data:image/png;base64,iVBORw0KGgo=''"

definition error_429 :: thrown where
  "error_429 = ErrorObj (ascii ''429 Too Many Requests'')"

text \<open>
  The taxonomy of the specification, to be compared with \<open>generateSmartSuggestions\<close>: four
  categories, each a list of keywords with its suggestions, and the general set used when
  no keyword occurs in the guess; at most four suggestions are kept.
\<close>

definition taxonomy :: "(jsstring list \<times> jsstring list) list" where
  "taxonomy =
     [([[0x732B], [0x72D7], [0x9E1F]],
       [[0x52A8, 0x7269], [0x5BA0, 0x7269], [0x54FA, 0x4E73, 0x52A8, 0x7269]]),
      ([[0x82B1], [0x6811], [0x5C71]],
       [[0x81EA, 0x7136], [0x690D, 0x7269], [0x98CE, 0x666F]]),
      ([[0x8F66], [0x623F, 0x5B50]],
       [[0x7269, 0x54C1], [0x4EA4, 0x901A, 0x5DE5, 0x5177], [0x5EFA, 0x7B51]]),
      ([[0x4EBA]],
       [[0x4EBA, 0x7269], [0x4EBA, 0x8138], [0x8096, 0x50CF]])]"

definition generic_suggestions :: "jsstring list" where
  "generic_suggestions = [[0x7269, 0x4F53], [0x56FE, 0x6848], [0x5F62, 0x72B6]]"

definition matches :: "jsstring \<Rightarrow> jsstring list \<times> jsstring list \<Rightarrow> bool" where
  "matches g category = list_ex (str_includes g) (fst category)"

definition taxonomy_suggestions :: "jsstring \<Rightarrow> jsstring list" where
  "taxonomy_suggestions g =
     (let hits = concat (map snd (filter (matches g) taxonomy))
      in take 4 (if hits = [] then generic_suggestions else hits))"

text \<open>The confidence bands of the specification, by the length of a text.\<close>

definition confidence_band :: "nat \<Rightarrow> real" where
  "confidence_band n = (if n > 20 then 0.9 else if n < 5 then 0.7 else 0.8)"

text \<open>The guess \<open>callOpenAI\<close> returns for the content of a response.\<close>

definition guess_of_content :: "jsstring option \<Rightarrow> jsstring" where
  "guess_of_content content =
     (case content of
        None \<Rightarrow> msg_unrecognized
      | Some c \<Rightarrow> if trim c = [] then msg_unrecognized else trim c)"

text \<open>The pool \<open>getIntelligentMockResponse\<close> selects for an image.\<close>

definition pool_for :: "jsstring \<Rightarrow> jsstring list" where
  "pool_for img =
     (if length img > 100000 then largeImageGuesses
      else if length img < 10000 then smallImageGuesses
      else defaultGuesses)"

text \<open>More concrete inputs: the one-character answer "cat" and the guess "a cat".\<close>

definition answer_cat :: jsstring where
  "answer_cat = [0x732B]"

definition guess_a_cat :: jsstring where
  "guess_a_cat = [0x4E00, 0x53EA, 0x732B]"

definition answer_sentence :: jsstring where
  "answer_sentence = ascii ''  a small cat sitting on a mat  ''"

text \<open>More concrete inputs: the address of the server, and a response whose head arrives
  after 120 ms and whose body never does.\<close>

definition local_url :: jsstring where
  "local_url = ascii ''http://localhost:3003''"

definition stalled_response :: fetch_behaviour where
  "stalled_response = FetchResolves 120 JsonStalls"

section \<open>Properties of the canvas history\<close>

lemma history_ok_initial: "history_ok (initial blank)"
  by (simp add: history_ok_def initial_def)

lemma slice0_inside:
  "- 1 \<le> i \<Longrightarrow> i < int (length xs) \<Longrightarrow> slice0 xs (i + 1) = take (nat (i + 1)) xs"
  by (simp add: slice0_def Let_def min_def)

lemma commit_unfold:
  assumes "surface s = Some old" "- 1 \<le> historyIndex s" "historyIndex s < int (length (history s))"
  shows "commit img now s =
     (let newHistory = take (nat (historyIndex s + 1)) (history s)
                         @ [\<lparr>imageData = img, timestamp = now\<rparr>]
      in if length newHistory > 50
         then s\<lparr>history := tl newHistory, surface := Some img\<rparr>
         else s\<lparr>history := newHistory, historyIndex := int (length newHistory) - 1,
                surface := Some img\<rparr>)"
  using assms
  by (simp add: commit_def paint_def saveToHistory_def slice0_inside Let_def)

lemma history_ok_range:
  "history_ok s \<Longrightarrow> - 1 \<le> historyIndex s \<and> historyIndex s < int (length (history s))
     \<and> length (history s) \<le> 50"
  by (auto simp: history_ok_def split: if_splits)

lemma commit_surface:
  "surface s \<noteq> None \<Longrightarrow> history_ok s \<Longrightarrow> surface (commit img now s) = Some img"
  using history_ok_range[of s]
  by (auto simp: commit_unfold Let_def)

lemma commit_history:
  assumes "surface s \<noteq> None" "history_ok s"
  shows "history (commit img now s) =
           (let newHistory = take (nat (historyIndex s + 1)) (history s)
                               @ [\<lparr>imageData = img, timestamp = now\<rparr>]
            in if historyIndex s = 49 then tl newHistory else newHistory)"
    and "historyIndex (commit img now s) = (if historyIndex s = 49 then 49 else historyIndex s + 1)"
proof -
  from assms obtain old where old: "surface s = Some old" by auto
  have r: "- 1 \<le> historyIndex s" "historyIndex s < int (length (history s))"
    "length (history s) \<le> 50"
    using history_ok_range[OF assms(2)] by auto
  have len: "length (take (nat (historyIndex s + 1)) (history s)) = nat (historyIndex s + 1)"
    using r by simp
  have gt: "(50 < nat (historyIndex s + 1) + 1) = (historyIndex s = 49)"
    using r by auto
  show "history (commit img now s) =
           (let newHistory = take (nat (historyIndex s + 1)) (history s)
                               @ [\<lparr>imageData = img, timestamp = now\<rparr>]
            in if historyIndex s = 49 then tl newHistory else newHistory)"
    using r gt by (simp add: commit_unfold[OF old r(1) r(2)] Let_def len del: length_take)
  show "historyIndex (commit img now s) = (if historyIndex s = 49 then 49 else historyIndex s + 1)"
    using r gt by (simp add: commit_unfold[OF old r(1) r(2)] Let_def len del: length_take)
qed

lemma commit_history_ok:
  assumes "surface s \<noteq> None" "history_ok s"
  shows "history_ok (commit img now s)"
proof -
  have r: "- 1 \<le> historyIndex s" "historyIndex s < int (length (history s))"
    "length (history s) \<le> 50"
    using history_ok_range[OF assms(2)] by auto
  show ?thesis
  proof (cases "historyIndex s = 49")
    case True
    then have full: "length (history s) = 50" using r by simp
    then have "take (nat (historyIndex s + 1)) (history s) = history s"
      using True by simp
    then show ?thesis
      using True full commit_history[OF assms, of img now]
      by (cases "history s") (simp_all add: history_ok_def Let_def)
  next
    case False
    then show ?thesis
      using r commit_history[OF assms, of img now]
      by (simp add: history_ok_def Let_def)
  qed
qed

lemma commit_current:
  assumes "surface s \<noteq> None" "history_ok s"
  shows "current (commit img now s) = Some \<lparr>imageData = img, timestamp = now\<rparr>"
proof -
  have r: "- 1 \<le> historyIndex s" "historyIndex s < int (length (history s))"
    "length (history s) \<le> 50"
    using history_ok_range[OF assms(2)] by auto
  show ?thesis
  proof (cases "historyIndex s = 49")
    case True
    then have full: "length (history s) = 50" using r by simp
    then obtain h hs where hs: "history s = h # hs" "length hs = 49"
      by (cases "history s") auto
    have "history (commit img now s) = hs @ [\<lparr>imageData = img, timestamp = now\<rparr>]"
      using True hs commit_history(1)[OF assms, of img now] by (simp add: Let_def)
    moreover have "historyIndex (commit img now s) = 49"
      using True commit_history(2)[OF assms, of img now] by simp
    ultimately show ?thesis
      using hs(2) by (simp add: current_def at_index_def nth_append)
  next
    case False
    have "history (commit img now s) =
            take (nat (historyIndex s + 1)) (history s) @ [\<lparr>imageData = img, timestamp = now\<rparr>]"
      using False commit_history(1)[OF assms, of img now] by (simp add: Let_def)
    moreover have "historyIndex (commit img now s) = historyIndex s + 1"
      using False commit_history(2)[OF assms, of img now] by simp
    ultimately show ?thesis
      using r by (simp add: current_def at_index_def nth_append)
  qed
qed

lemma commits_ok:
  "surface s \<noteq> None \<Longrightarrow> history_ok s \<Longrightarrow>
     history_ok (commits cs s) \<and> surface (commits cs s) \<noteq> None"
proof (induction cs arbitrary: s)
  case Nil
  then show ?case by simp
next
  case (Cons c cs)
  have "surface (commit (fst c) (snd c) s) \<noteq> None"
    using commit_surface[OF Cons.prems] by simp
  moreover have "history_ok (commit (fst c) (snd c) s)"
    by (rule commit_history_ok[OF Cons.prems])
  ultimately show ?case using Cons.IH by simp
qed

lemma commits_current:
  "surface s \<noteq> None \<Longrightarrow> history_ok s \<Longrightarrow> cs \<noteq> [] \<Longrightarrow>
     current (commits cs s) = Some (snapshot_of (last cs))"
proof (induction cs arbitrary: s)
  case Nil
  then show ?case by simp
next
  case (Cons c cs)
  have s1: "surface (commit (fst c) (snd c) s) \<noteq> None"
    using commit_surface[OF Cons.prems(1,2)] by simp
  have ok1: "history_ok (commit (fst c) (snd c) s)"
    by (rule commit_history_ok[OF Cons.prems(1,2)])
  show ?case
  proof (cases "cs = []")
    case True
    then show ?thesis
      using commit_current[OF Cons.prems(1,2), of "fst c" "snd c"]
      by (simp add: snapshot_of_def)
  next
    case False
    then show ?thesis using Cons.IH[OF s1 ok1] by simp
  qed
qed

text \<open>Committing from the tip of the history keeps the last 50 snapshots, cursor on the newest.\<close>

lemma commits_from_tip:
  "surface s \<noteq> None \<Longrightarrow> history_ok s \<Longrightarrow> historyIndex s = int (length (history s)) - 1 \<Longrightarrow>
     history (commits cs s)
       = drop (length (history s) + length cs - 50) (history s @ map snapshot_of cs)
     \<and> historyIndex (commits cs s) = int (length (history (commits cs s))) - 1"
proof (induction cs arbitrary: s)
  case Nil
  have "length (history s) \<le> 50" using history_ok_range[OF Nil(2)] by simp
  then show ?case using Nil by simp
next
  case (Cons c cs)
  let ?x = "\<lparr>imageData = fst c, timestamp = snd c\<rparr>"
  let ?s' = "commit (fst c) (snd c) s"
  have le: "length (history s) \<le> 50" using history_ok_range[OF Cons.prems(2)] by simp
  have s1: "surface ?s' \<noteq> None" using commit_surface[OF Cons.prems(1,2)] by simp
  have ok1: "history_ok ?s'" by (rule commit_history_ok[OF Cons.prems(1,2)])
  have tk: "take (nat (historyIndex s + 1)) (history s) = history s"
    using Cons.prems(3) by simp
  show ?case
  proof (cases "historyIndex s = 49")
    case True
    then have full: "length (history s) = 50" using Cons.prems(3) by simp
    then obtain h hs where hs: "history s = h # hs" "length hs = 49"
      by (cases "history s") auto
    have h1: "history ?s' = hs @ [?x]"
      using True tk hs commit_history(1)[OF Cons.prems(1,2), of "fst c" "snd c"]
      by (simp add: Let_def)
    have i1: "historyIndex ?s' = 49"
      using True commit_history(2)[OF Cons.prems(1,2), of "fst c" "snd c"] by simp
    have tip1: "historyIndex ?s' = int (length (history ?s')) - 1"
      using h1 i1 hs(2) by simp
    have "history (commits cs ?s')
            = drop (length (history ?s') + length cs - 50) (history ?s' @ map snapshot_of cs)"
      using Cons.IH[OF s1 ok1 tip1] by simp
    also have "\<dots> = drop (length cs) (hs @ ?x # map snapshot_of cs)"
      using h1 hs(2) by simp
    also have "\<dots> = drop (length (history s) + length (c # cs) - 50)
                       (history s @ map snapshot_of (c # cs))"
      using hs by (simp add: snapshot_of_def)
    finally show ?thesis using Cons.IH[OF s1 ok1 tip1] by simp
  next
    case False
    then have lt: "length (history s) < 50" using Cons.prems(3) le by auto
    have h1: "history ?s' = history s @ [?x]"
      using False tk commit_history(1)[OF Cons.prems(1,2), of "fst c" "snd c"]
      by (simp add: Let_def)
    have i1: "historyIndex ?s' = historyIndex s + 1"
      using False commit_history(2)[OF Cons.prems(1,2), of "fst c" "snd c"] by simp
    have tip1: "historyIndex ?s' = int (length (history ?s')) - 1"
      using h1 i1 Cons.prems(3) by simp
    have "history (commits cs ?s')
            = drop (length (history ?s') + length cs - 50) (history ?s' @ map snapshot_of cs)"
      using Cons.IH[OF s1 ok1 tip1] by simp
    also have "\<dots> = drop (length (history s) + length (c # cs) - 50)
                       (history s @ map snapshot_of (c # cs))"
      using h1 by (simp add: snapshot_of_def)
    finally show ?thesis using Cons.IH[OF s1 ok1 tip1] by simp
  qed
qed

lemma commits_initial:
  "history (commits cs (initial blank)) = drop (length cs - 50) (map snapshot_of cs)"
  "historyIndex (commits cs (initial blank)) = int (min (length cs) 50) - 1"
proof -
  have a: "surface (initial blank) \<noteq> None" by (simp add: initial_def)
  have b: "historyIndex (initial blank) = int (length (history (initial blank))) - 1"
    by (simp add: initial_def)
  note t = commits_from_tip[OF a history_ok_initial b, of cs]
  show h: "history (commits cs (initial blank)) = drop (length cs - 50) (map snapshot_of cs)"
    using t by (simp add: initial_def)
  show "historyIndex (commits cs (initial blank)) = int (min (length cs) 50) - 1"
    using t h by (simp add: min_def)
qed

lemma undo_history_ok: "history_ok s \<Longrightarrow> history_ok (snd (undo s))"
  by (auto simp: undo_def history_ok_def at_index_def Let_def split: option.splits if_splits)

lemma redo_history_ok: "history_ok s \<Longrightarrow> history_ok (snd (redo s))"
  by (auto simp: redo_def history_ok_def at_index_def Let_def split: option.splits if_splits)

lemma undo_enables_redo:
  "history_ok s \<Longrightarrow> surface s \<noteq> None \<Longrightarrow> canUndo s \<Longrightarrow> canRedo (snd (undo s))"
  by (auto simp: undo_def canUndo_def canRedo_def history_ok_def at_index_def Let_def
      split: option.splits if_splits)

text \<open>
  C3. From a well-formed history with a canvas, after any sequence of commits the history
  holds at most 50 entries, and after a non-empty sequence the current entry is the snapshot
  committed last. After 51 commits on the initial (empty) history the length is 50, the
  position is 49 and the history consists of the 2nd to 51st snapshots: the first one has
  been evicted, so it is no longer an entry when it differs from the later ones.
\<close>

theorem commit_bounded_history:
  "history_ok s \<Longrightarrow> surface s \<noteq> None \<Longrightarrow>
     length (history (commits cs s)) \<le> 50
     \<and> (cs \<noteq> [] \<longrightarrow> current (commits cs s) = Some (snapshot_of (last cs)))
     \<and> (length cs = 51 \<longrightarrow>
          length (history (commits cs (initial blank))) = 50
          \<and> historyIndex (commits cs (initial blank)) = 49
          \<and> history (commits cs (initial blank)) = map snapshot_of (tl cs)
          \<and> (snapshot_of (hd cs) \<notin> snapshot_of ` set (tl cs)
               \<longrightarrow> snapshot_of (hd cs) \<notin> set (history (commits cs (initial blank)))))"
proof (intro conjI impI)
  assume ok: "history_ok s" and sf: "surface s \<noteq> None"
  show "length (history (commits cs s)) \<le> 50"
    using commits_ok[OF sf ok, of cs] history_ok_range[of "commits cs s"] by simp
  show "current (commits cs s) = Some (snapshot_of (last cs))" if "cs \<noteq> []"
    using commits_current[OF sf ok that] .
next
  assume n: "length cs = 51"
  have h: "history (commits cs (initial blank)) = map snapshot_of (tl cs)"
    using n by (simp add: commits_initial(1) drop_Suc map_tl drop_map)
  show "history (commits cs (initial blank)) = map snapshot_of (tl cs)" by (rule h)
  show "length (history (commits cs (initial blank))) = 50" using n by (simp add: h)
  show "historyIndex (commits cs (initial blank)) = 49" using n by (simp add: commits_initial(2))
  show "snapshot_of (hd cs) \<notin> set (history (commits cs (initial blank)))"
    if "snapshot_of (hd cs) \<notin> snapshot_of ` set (tl cs)"
    using that by (simp add: h)
qed

theorem commit_bounded_history_witness:
  "history_ok (initial (0::nat)) \<and> surface (initial (0::nat)) \<noteq> None
   \<and> fifty_one_commits \<noteq> [] \<and> length fifty_one_commits = 51
   \<and> snapshot_of (hd fifty_one_commits) \<notin> snapshot_of ` set (tl fifty_one_commits)
   \<and> length (history (commits fifty_one_commits (initial 0))) = 50
   \<and> historyIndex (commits fifty_one_commits (initial 0)) = 49
   \<and> current (commits fifty_one_commits (initial 0)) = Some \<lparr>imageData = 50, timestamp = 50\<rparr>
   \<and> \<lparr>imageData = 0, timestamp = 0\<rparr> \<notin> set (history (commits fifty_one_commits (initial 0)))"
proof -
  have a: "history_ok (initial (0::nat))" by (rule history_ok_initial)
  have b: "surface (initial (0::nat)) \<noteq> None" by (simp add: initial_def)
  have c: "length fifty_one_commits = 51" by (simp add: fifty_one_commits_def)
  have d: "fifty_one_commits \<noteq> []" using c by auto
  have e: "snapshot_of (hd fifty_one_commits) \<notin> snapshot_of ` set (tl fifty_one_commits)"
    by code_simp
  have f: "snapshot_of (hd fifty_one_commits) = \<lparr>imageData = 0, timestamp = 0\<rparr>"
    by code_simp
  have g: "snapshot_of (last fifty_one_commits) = \<lparr>imageData = 50, timestamp = 50\<rparr>"
    by code_simp
  show ?thesis
    using commit_bounded_history[OF a b, of fifty_one_commits 0] a b c d e f g by simp
qed

text \<open>
  C5. On a well-formed history with position > 0, \<open>undo\<close> followed by \<open>redo\<close> throws
  nothing and gives back the same history, the same position and the same current entry;
  with a canvas, \<open>undo\<close> has moved the position back by one in between, and after \<open>redo\<close>
  the canvas shows the snapshot that was current before the \<open>undo\<close>.
\<close>

theorem undo_redo_restores:
  "history_ok s \<Longrightarrow> historyIndex s > 0 \<Longrightarrow>
     fst (undo s) = None \<and> fst (redo (snd (undo s))) = None
     \<and> history (snd (redo (snd (undo s)))) = history s
     \<and> historyIndex (snd (redo (snd (undo s)))) = historyIndex s
     \<and> current (snd (redo (snd (undo s)))) = current s
     \<and> current s \<noteq> None
     \<and> (surface s \<noteq> None \<longrightarrow>
          historyIndex (snd (undo s)) = historyIndex s - 1
          \<and> surface (snd (redo (snd (undo s)))) = map_option imageData (current s))"
proof -
  assume ok: "history_ok s" and pos: "historyIndex s > 0"
  have r: "historyIndex s < int (length (history s))"
    using history_ok_range[OF ok] by simp
  show ?thesis
  proof (cases "surface s")
    case None
    then show ?thesis
      using pos r by (simp add: undo_def redo_def current_def at_index_def)
  next
    case (Some img)
    have u: "undo s = (None, s\<lparr>historyIndex := historyIndex s - 1,
                surface := Some (imageData (history s ! nat (historyIndex s - 1)))\<rparr>)"
      using pos r Some by (simp add: undo_def at_index_def Let_def)
    show ?thesis
      using pos r Some unfolding u
      by (simp add: redo_def current_def at_index_def Let_def)
  qed
qed

theorem undo_redo_restores_witness:
  "history_ok (commits three_commits (initial 0))
   \<and> historyIndex (commits three_commits (initial 0)) > 0
   \<and> surface (commits three_commits (initial 0)) \<noteq> None
   \<and> current (commits three_commits (initial 0)) = Some \<lparr>imageData = 3, timestamp = 30\<rparr>
   \<and> current (snd (undo (commits three_commits (initial 0))))
       = Some \<lparr>imageData = 2, timestamp = 20\<rparr>
   \<and> current (snd (redo (snd (undo (commits three_commits (initial 0))))))
       = Some \<lparr>imageData = 3, timestamp = 30\<rparr>
   \<and> surface (snd (redo (snd (undo (commits three_commits (initial 0)))))) = Some 3
   \<and> historyIndex (snd (redo (snd (undo (commits three_commits (initial 0)))))) = 2"
proof -
  let ?s = "commits three_commits (initial (0::nat))"
  have a: "history_ok ?s" by code_simp
  have b: "historyIndex ?s > 0" by code_simp
  have c: "surface ?s \<noteq> None" by code_simp
  have d: "current ?s = Some \<lparr>imageData = 3, timestamp = 30\<rparr>" by code_simp
  have e: "current (snd (undo ?s)) = Some \<lparr>imageData = 2, timestamp = 20\<rparr>" by code_simp
  have f: "historyIndex ?s = 2" by code_simp
  show ?thesis
    using undo_redo_restores[OF a b] a b c d e f by simp
qed

text \<open>
  C6. On a well-formed history with a canvas and position < length - 1 (the state after
  one or more undos), a commit keeps the entries up to the position, appends the new
  snapshot after them and moves the position onto it: \<open>canRedo\<close> is false afterwards.
\<close>

theorem commit_discards_redo:
  "history_ok s \<Longrightarrow> surface s \<noteq> None \<Longrightarrow> historyIndex s < int (length (history s)) - 1 \<Longrightarrow>
     history (commit img now s)
       = take (nat (historyIndex s + 1)) (history s) @ [\<lparr>imageData = img, timestamp = now\<rparr>]
     \<and> historyIndex (commit img now s) = historyIndex s + 1
     \<and> \<not> canRedo (commit img now s)"
proof -
  assume ok: "history_ok s" and sf: "surface s \<noteq> None"
    and lt: "historyIndex s < int (length (history s)) - 1"
  have r: "- 1 \<le> historyIndex s" "length (history s) \<le> 50"
    using history_ok_range[OF ok] by auto
  have ne: "historyIndex s \<noteq> 49" using lt r by auto
  have h: "history (commit img now s)
       = take (nat (historyIndex s + 1)) (history s) @ [\<lparr>imageData = img, timestamp = now\<rparr>]"
    using ne commit_history(1)[OF sf ok, of img now] by (simp add: Let_def)
  have i: "historyIndex (commit img now s) = historyIndex s + 1"
    using ne commit_history(2)[OF sf ok, of img now] by simp
  have "\<not> canRedo (commit img now s)"
    using lt r by (simp add: canRedo_def h i)
  with h i show ?thesis by simp
qed

theorem commit_discards_redo_witness:
  "history_ok (snd (undo (commits three_commits (initial 0))))
   \<and> surface (snd (undo (commits three_commits (initial 0)))) \<noteq> None
   \<and> canRedo (snd (undo (commits three_commits (initial 0))))
   \<and> history (commit 7 40 (snd (undo (commits three_commits (initial 0)))))
       = [\<lparr>imageData = 1, timestamp = 10\<rparr>, \<lparr>imageData = 2, timestamp = 20\<rparr>,
          \<lparr>imageData = 7, timestamp = 40\<rparr>]
   \<and> historyIndex (commit 7 40 (snd (undo (commits three_commits (initial 0))))) = 2
   \<and> \<not> canRedo (commit 7 40 (snd (undo (commits three_commits (initial 0)))))"
proof -
  let ?s = "snd (undo (commits three_commits (initial (0::nat))))"
  have a: "history_ok ?s" by code_simp
  have b: "surface ?s \<noteq> None" by code_simp
  have c: "historyIndex ?s < int (length (history ?s)) - 1" by code_simp
  have d: "history ?s = [\<lparr>imageData = 1, timestamp = 10\<rparr>, \<lparr>imageData = 2, timestamp = 20\<rparr>,
          \<lparr>imageData = 3, timestamp = 30\<rparr>]" by code_simp
  have e: "historyIndex ?s = 1" by code_simp
  show ?thesis
    using commit_discards_redo[OF a b c, of 7 40] a b c d e by (simp add: canRedo_def)
qed

section \<open>Properties of the arithmetic on random values\<close>

lemma rand_range: "rand_mantissa r < 2 ^ 53" "53 \<le> rand_scale r" "rand_scale r \<le> 1074"
  by (transfer; auto)+

lemma floorlog_eqI: "2 ^ k \<le> N \<Longrightarrow> N < 2 ^ Suc k \<Longrightarrow> floorlog 2 N = Suc k"
  by (meson floorlog_ge_SucI floorlog_leI le_antisym one_less_numeral_iff semiring_norm(76) zero_le)

lemma round_sig_small: "N < 2 ^ 53 \<Longrightarrow> round_sig N = N"
proof -
  assume "N < 2 ^ 53"
  then have "floorlog 2 N \<le> 53" by (intro floorlog_leI) auto
  then show ?thesis by (simp add: round_sig_def)
qed

text \<open>Rounding moves a number at most to the next multiple of the rounding unit.\<close>

lemma round_sig_ge_multiple:
  assumes "2 ^ (floorlog 2 N - 53) dvd K" "K \<le> N"
  shows "K \<le> round_sig N"
proof -
  let ?p = "2 ^ (floorlog 2 N - 53) :: nat"
  obtain k where k: "K = k * ?p" using assms(1) by (auto simp: dvd_def mult.commute)
  have "k \<le> N div ?p" using assms(2) k by (simp add: less_eq_div_iff_mult_less_eq)
  then have "K \<le> (N div ?p) * ?p" using k by simp
  also have "\<dots> \<le> round_sig N" by (simp add: round_sig_def Let_def)
  finally show ?thesis .
qed

lemma round_sig_le_multiple:
  assumes "2 ^ (floorlog 2 N - 53) dvd K" "N \<le> K"
  shows "round_sig N \<le> K"
proof -
  let ?p = "2 ^ (floorlog 2 N - 53) :: nat"
  obtain k where k: "K = k * ?p" using assms(1) by (auto simp: dvd_def mult.commute)
  have p: "0 < ?p" by simp
  have qk: "N div ?p \<le> k" using assms(2) k p
    by (metis div_le_mono div_mult_self_is_m)
  show ?thesis
  proof (cases "N div ?p = k")
    case True
    then have "N mod ?p = 0" using assms(2) k
      by (metis add_diff_cancel_left' diff_is_0_eq' mult.commute mult_div_mod_eq)
    then show ?thesis using True k by (simp add: round_sig_def Let_def)
  next
    case False
    then have "N div ?p + 1 \<le> k" using qk by simp
    then have "(N div ?p + 1) * ?p \<le> K" unfolding k by (rule mult_le_mono1)
    moreover have "round_sig N \<le> (N div ?p + 1) * ?p" by (simp add: round_sig_def Let_def)
    ultimately show ?thesis by simp
  qed
qed

lemma round_sig_less_multiple:
  assumes "2 ^ (floorlog 2 N - 53) dvd K" "2 * N + 2 ^ (floorlog 2 N - 53) < 2 * K"
  shows "round_sig N < K"
proof -
  let ?p = "2 ^ (floorlog 2 N - 53) :: nat"
  obtain k where k: "K = k * ?p" using assms(1) by (auto simp: dvd_def mult.commute)
  have N: "N = (N div ?p) * ?p + N mod ?p" by (rule div_mult_mod_eq[symmetric])
  show ?thesis
  proof (cases "2 * (N mod ?p) > ?p \<or> (2 * (N mod ?p) = ?p \<and> odd (N div ?p))")
    case True
    then have "?p \<le> 2 * (N mod ?p)" by auto
    then have "2 * ((N div ?p) * ?p) + 2 * ?p \<le> 2 * N + ?p" using N by linarith
    then have "2 * ((N div ?p + 1) * ?p) < 2 * K" using assms(2) by (simp add: algebra_simps)
    then show ?thesis using True by (simp add: round_sig_def Let_def)
  next
    case False
    then have "round_sig N = (N div ?p) * ?p" by (auto simp: round_sig_def Let_def)
    also have "\<dots> \<le> N" by simp
    also have "N < K" using assms(2) by simp
    finally show ?thesis .
  qed
qed

lemma unit_less:
  assumes "N < n * 2 ^ 53"
  shows "(2::nat) ^ (floorlog 2 N - 53) < 2 * n"
proof (cases "floorlog 2 N \<le> 53")
  case True
  have "n \<noteq> 0" using assms by (cases "n = 0") simp_all
  moreover have "floorlog 2 N - 53 = 0" using True by simp
  ultimately show ?thesis by simp
next
  case False
  then have f: "54 \<le> floorlog 2 N" by simp
  then have "N > 0" by (cases "N = 0") (simp_all add: floorlog_def)
  then have "(2::nat) ^ (floorlog 2 N - 1) \<le> N" using floorlog_bounds[of N 2] by simp
  then have lt: "(2::nat) ^ (floorlog 2 N - 1) < n * 2 ^ 53" using assms by (rule le_less_trans)
  have "floorlog 2 N - 1 = (floorlog 2 N - 54) + 53" using f by simp
  then have "(2::nat) ^ (floorlog 2 N - 1) = 2 ^ (floorlog 2 N - 54) * 2 ^ 53"
    by (simp only: power_add)
  with lt have "(2::nat) ^ (floorlog 2 N - 54) * 2 ^ 53 < n * 2 ^ 53" by (simp only:)
  then have "(2::nat) ^ (floorlog 2 N - 54) < n" by (simp only: mult_less_cancel2)
  moreover have "floorlog 2 N - 53 = Suc (floorlog 2 N - 54)" using f by simp
  ultimately show ?thesis by simp
qed

lemma pow_split: "a \<le> s \<Longrightarrow> (2::nat) ^ (s - a) * 2 ^ a = 2 ^ s"
  by (metis le_add_diff_inverse2 power_add)

lemma unit_dvd:
  assumes "N < 2 ^ (53 + j)"
  shows "(2::nat) ^ (floorlog 2 N - 53) dvd k * 2 ^ j"
proof -
  have "floorlog 2 N \<le> 53 + j" using assms by (intro floorlog_leI) auto
  then have "floorlog 2 N - 53 \<le> j" by simp
  then have "(2::nat) ^ (floorlog 2 N - 53) dvd 2 ^ j" by (rule le_imp_power_dvd)
  then show ?thesis by (rule dvd_mult)
qed

lemma round_sig_exact: "k < 2 ^ 53 \<Longrightarrow> round_sig (k * 2 ^ j) = k * 2 ^ j"
proof -
  assume k: "k < 2 ^ 53"
  let ?N = "k * 2 ^ j"
  have "?N < 2 ^ (53 + j)" using k by (simp add: power_add)
  then have d: "(2::nat) ^ (floorlog 2 ?N - 53) dvd ?N" by (rule unit_dvd)
  from round_sig_ge_multiple[OF d] round_sig_le_multiple[OF d] show ?thesis by force
qed

lemma product_unit_dvd:
  assumes "n < 2 ^ 53"
  shows "(2::nat) ^ (floorlog 2 (rand_mantissa r * n) - 53) dvd k * 2 ^ rand_scale r"
proof -
  have "rand_mantissa r * n < 2 ^ 53 * 2 ^ 53"
    using rand_range(1)[of r] assms by (intro mult_strict_mono) auto
  then have "rand_mantissa r * n < 2 ^ (53 + 53)" by (simp add: power_add)
  then have "(2::nat) ^ (floorlog 2 (rand_mantissa r * n) - 53)
               dvd (k * 2 ^ (rand_scale r - 53)) * 2 ^ 53"
    by (rule unit_dvd)
  moreover have "(k * 2 ^ (rand_scale r - 53)) * 2 ^ 53 = k * 2 ^ rand_scale r"
    using pow_split[OF rand_range(2)[of r]] by (simp only: mult.assoc)
  ultimately show ?thesis by (simp only:)
qed

lemma product_unit_less:
  assumes "0 < n"
  shows "(2::nat) ^ (floorlog 2 (rand_mantissa r * n) - 53) < 2 * n"
proof -
  have "rand_mantissa r * n < 2 ^ 53 * n"
    using rand_range(1)[of r] assms by simp
  then show ?thesis by (intro unit_less) (simp add: mult.commute)
qed

lemma fl_times_ge:
  assumes "n < 2 ^ 53" "i * 2 ^ rand_scale r \<le> rand_mantissa r * n"
  shows "i * 2 ^ rand_scale r \<le> fl_times r n"
  unfolding fl_times_def
  by (rule round_sig_ge_multiple[OF product_unit_dvd[OF assms(1)] assms(2)])

lemma fl_times_less:
  assumes "0 < n" "n < 2 ^ 53" "(rand_mantissa r + 1) * n \<le> k * 2 ^ rand_scale r"
  shows "fl_times r n < k * 2 ^ rand_scale r"
  unfolding fl_times_def
proof (rule round_sig_less_multiple[OF product_unit_dvd[OF assms(2)]])
  show "2 * (rand_mantissa r * n) + 2 ^ (floorlog 2 (rand_mantissa r * n) - 53)
          < 2 * (k * 2 ^ rand_scale r)"
    using product_unit_less[OF assms(1), of r] assms(3) by (simp add: algebra_simps)
qed

lemma fl_times_bound:
  assumes "0 < n" "n < 2 ^ 53"
  shows "fl_times r n < n * 2 ^ rand_scale r"
proof (rule fl_times_less[OF assms])
  have "rand_mantissa r + 1 \<le> 2 ^ 53" using rand_range(1)[of r] by simp
  also have "(2::nat) ^ 53 \<le> 2 ^ rand_scale r"
    using rand_range(2)[of r] by (intro power_increasing) auto
  finally have "rand_mantissa r + 1 \<le> 2 ^ rand_scale r" .
  then show "(rand_mantissa r + 1) * n \<le> n * 2 ^ rand_scale r"
    by (metis mult.commute mult_le_mono1)
qed

lemma random_index_less: "0 < n \<Longrightarrow> n < 2 ^ 53 \<Longrightarrow> random_index n r < n"
  unfolding random_index_def
  by (simp add: fl_times_bound less_mult_imp_div_less)

lemma random_index_ge:
  assumes "n < 2 ^ 53" "i * 2 ^ rand_scale r \<le> rand_mantissa r * n"
  shows "i \<le> random_index n r"
proof -
  have "i = (i * 2 ^ rand_scale r) div 2 ^ rand_scale r" by simp
  also have "\<dots> \<le> fl_times r n div 2 ^ rand_scale r"
    by (rule div_le_mono[OF fl_times_ge[OF assms]])
  finally show ?thesis by (simp add: random_index_def)
qed

lemma random_index_le:
  assumes "0 < n" "n < 2 ^ 53" "(rand_mantissa r + 1) * n \<le> (i + 1) * 2 ^ rand_scale r"
  shows "random_index n r \<le> i"
proof -
  have "fl_times r n div 2 ^ rand_scale r < i + 1"
    using fl_times_less[OF assms] by (simp add: less_mult_imp_div_less)
  then show ?thesis by (simp add: random_index_def)
qed

lemma random_index_only:
  assumes "0 < n" "n < 2 ^ 53" "random_index n r = i"
  shows "i * 2 ^ rand_scale r < (rand_mantissa r + 1) * n
         \<and> rand_mantissa r * n < (i + 1) * 2 ^ rand_scale r"
proof (intro conjI)
  show "i * 2 ^ rand_scale r < (rand_mantissa r + 1) * n"
  proof (rule ccontr)
    assume "\<not> i * 2 ^ rand_scale r < (rand_mantissa r + 1) * n"
    then have le: "(rand_mantissa r + 1) * n \<le> i * 2 ^ rand_scale r" by simp
    have "i \<noteq> 0" using le assms(1) by (cases i) auto
    then obtain j where j: "i = j + 1" by (cases i) auto
    from random_index_le[OF assms(1,2) le[unfolded j]] assms(3) j show False by simp
  qed
  show "rand_mantissa r * n < (i + 1) * 2 ^ rand_scale r"
  proof (rule ccontr)
    assume "\<not> rand_mantissa r * n < (i + 1) * 2 ^ rand_scale r"
    then have "(i + 1) * 2 ^ rand_scale r \<le> rand_mantissa r * n" by simp
    from random_index_ge[OF assms(2) this] assms(3) show False by simp
  qed
qed




lemma random_index_half_4: "random_index 4 rand_half = 2"
proof -
  have "round_sig (4 * 2 ^ 52) = 4 * 2 ^ 52" by (rule round_sig_exact) simp
  then show ?thesis
    by (simp add: random_index_def fl_times_def rand_mantissa.rep_eq rand_scale.rep_eq
        rand_half.rep_eq mult.commute)
qed

text \<open>A product that lies half a unit below 10 is rounded up to 10.\<close>

lemma random_index_tie_12: "random_index 12 rand_tie = 10"
proof -
  have f: "floorlog 2 90071992547409912 = Suc 56" by (rule floorlog_eqI) simp_all
  have "round_sig 90071992547409912 = 90071992547409920"
    by (simp add: round_sig_def f Let_def)
  then show ?thesis
    by (simp add: random_index_def fl_times_def rand_mantissa.rep_eq rand_scale.rep_eq
        rand_tie.rep_eq)
qed

lemma random_index_zero: "random_index n rand_zero = 0"
proof -
  have "round_sig 0 = 0" by (simp add: round_sig_def)
  then show ?thesis
    by (simp add: random_index_def fl_times_def rand_mantissa.rep_eq rand_zero.rep_eq)
qed

lemma random_index_half_10: "random_index 10 rand_half = 5"
proof -
  have "round_sig (10 * 2 ^ 52) = 10 * 2 ^ 52" by (rule round_sig_exact) simp
  then show ?thesis
    by (simp add: random_index_def fl_times_def rand_mantissa.rep_eq rand_scale.rep_eq
        rand_half.rep_eq mult.commute)
qed



section \<open>Properties of the guess services\<close>

lemma key_present_cond:
  "key_present e \<Longrightarrow> (OPENAI_API_KEY e = None \<or> OPENAI_API_KEY e = Some []) = False"
  by (simp add: key_present_def)

lemma guessImage_key_missing:
  "\<not> key_present e \<Longrightarrow>
     guessImage e hc img remote r1 r2 =
       \<lparr>response = getIntelligentMockResponse img None r1 r2, remote_calls = 0,
        catch_log = None, mock_log = Some (mock_log_line None),
        unhandled_rejection = Some (configured_delay e)\<rparr>"
  by (auto simp: guessImage_def key_present_def configured_delay_def)

lemma guessImage_fallback:
  assumes "key_present e" "race (callOpenAI hc remote) (configured_delay e) = (t, Inl err)"
  shows "guessImage e hc img remote r1 r2 =
       \<lparr>response = (getIntelligentMockResponse img (Some (reason_of err)) r1 r2)
                      \<lparr>processingTime := real t, success := True\<rparr>,
        remote_calls = (if hc then 1 else 0),
        catch_log = (case err of
                       ErrorObj m \<Rightarrow>
                         if str_includes m kw_timeout then Some log_timeout
                         else if str_includes m kw_auth_failed then Some log_auth_failed
                         else if str_includes m kw_rate_limit then Some log_rate_limit
                         else None
                     | OtherValue \<Rightarrow> None),
        mock_log = Some (mock_log_line (Some (reason_of err))),
        unhandled_rejection = None\<rparr>"
  unfolding guessImage_def Let_def key_present_cond[OF assms(1)] if_False
    assms(2)[unfolded configured_delay_def] reason_of_def
  by simp

lemma guessImage_success:
  assumes "key_present e" "race (callOpenAI hc remote) (configured_delay e) = (t, Inr (g, c, s))"
  shows "guessImage e hc img remote r1 r2 =
       \<lparr>response = \<lparr>guess = g, confidence = c, processingTime = real t,
                    suggestions = Some s, success = True, error = None\<rparr>,
        remote_calls = (if hc then 1 else 0), catch_log = None, mock_log = None,
        unhandled_rejection = None\<rparr>"
  unfolding guessImage_def Let_def key_present_cond[OF assms(1)] if_False
    assms(2)[unfolded configured_delay_def]
  by simp

lemma pool_lengths:
  "length largeImageGuesses = 4" "length smallImageGuesses = 4" "length defaultGuesses = 12"
  by (simp_all add: largeImageGuesses_def smallImageGuesses_def defaultGuesses_def)

lemma mock_fields:
  "success (getIntelligentMockResponse img reason r1 r2)"
  "error (getIntelligentMockResponse img reason r1 r2) = None"
  "suggestions (getIntelligentMockResponse img reason r1 r2) = Some smartSuggestions"
  "confidence (getIntelligentMockResponse img reason r1 r2)
     = (if startsWith img (ascii ''data:image/'') then 0.7 else 0.6)"
  by (simp_all add: getIntelligentMockResponse_def Let_def)

lemma mock_guess:
  "guess (getIntelligentMockResponse img reason r1 r2)
     = (if length img > 100000 then largeImageGuesses ! random_index 4 r1
        else if length img < 10000 then smallImageGuesses ! random_index 4 r1
        else defaultGuesses ! random_index 12 r1)"
  by (simp add: getIntelligentMockResponse_def Let_def pool_lengths)

lemma mock_reason_irrelevant:
  "getIntelligentMockResponse img reason r1 r2 = getIntelligentMockResponse img None r1 r2"
  by (simp add: getIntelligentMockResponse_def)

lemma race_cases:
  "(\<exists>t g c s. race p d = (t, Inr (g, c, s))) \<or> (\<exists>t err. race p d = (t, Inl err))"
  by (cases "race p d"; cases "snd (race p d)") auto


lemma race_error: "race (At t (Inl y)) d = (if t < d then (t, Inl y) else (d, Inl (ErrorObj msg_timeout)))"
  by (simp add: race_def)

lemma timer_delay_pos: "0 < timer_delay d"
  by (cases d) (simp_all add: timer_delay_def)

lemma configured_delay_pos: "0 < configured_delay e"
  by (simp add: configured_delay_def timer_delay_pos)

lemma callOpenAI_no_client:
  "callOpenAI False remote = At 0 (Inl (ErrorObj msg_not_initialized))"
  by (simp add: callOpenAI_def)


lemma callOpenAI_rejects: "\<exists>y. callOpenAI True (At t (Rejects x)) = At t (Inl y)"
  by (cases x) (simp_all add: callOpenAI_def)

lemma guessImage_success_field: "success (response (guessImage e hc img remote r1 r2))"
proof (cases "key_present e")
  case False
  then show ?thesis by (simp add: guessImage_key_missing mock_fields)
next
  case True
  show ?thesis
    using race_cases[of "callOpenAI hc remote" "configured_delay e"]
    by (auto simp: guessImage_success[OF True] guessImage_fallback[OF True])
qed

lemma guessImage_no_client:
  assumes "key_present e"
  shows "guessImage e False img remote r1 r2 =
       \<lparr>response = (getIntelligentMockResponse img (Some msg_not_initialized) r1 r2)
                      \<lparr>processingTime := 0, success := True\<rparr>,
        remote_calls = 0,
        catch_log = None,
        mock_log = Some (mock_log_line (Some msg_not_initialized)),
        unhandled_rejection = None\<rparr>"
proof -
  have inc: "\<not> str_includes msg_not_initialized kw_timeout"
    "\<not> str_includes msg_not_initialized kw_auth_failed"
    "\<not> str_includes msg_not_initialized kw_rate_limit"
    by (simp_all add: msg_not_initialized_def kw_timeout_def kw_auth_failed_def
        kw_rate_limit_def startsWith_def)
  have "race (callOpenAI False remote) (configured_delay e)
          = (0, Inl (ErrorObj msg_not_initialized))"
    using configured_delay_pos[of e] by (simp add: callOpenAI_no_client race_error)
  from guessImage_fallback[OF assms this] show ?thesis by (simp add: reason_of_def inc)
qed


lemma guessImage_rejects:
  assumes "key_present e"
  shows "\<exists>reason t'. response (guessImage e hc img (At t (Rejects x)) r1 r2) =
           (getIntelligentMockResponse img (Some reason) r1 r2)
              \<lparr>processingTime := real t', success := True\<rparr>"
proof (cases hc)
  case False
  have "response (guessImage e hc img (At t (Rejects x)) r1 r2) =
          (getIntelligentMockResponse img (Some msg_not_initialized) r1 r2)
             \<lparr>processingTime := real 0, success := True\<rparr>"
    using False by (simp add: guessImage_no_client[OF assms])
  then show ?thesis by blast
next
  case True
  obtain y where y: "callOpenAI True (At t (Rejects x)) = At t (Inl y)"
    using callOpenAI_rejects by blast
  have "\<exists>t' e'. race (callOpenAI hc (At t (Rejects x))) (configured_delay e) = (t', Inl e')"
    using True y by (cases "t < configured_delay e") (simp_all add: race_error)
  then obtain t' e' where
    "race (callOpenAI hc (At t (Rejects x))) (configured_delay e) = (t', Inl e')"
    by blast
  from guessImage_fallback[OF assms this] show ?thesis by auto
qed

lemma unhandled_rejection_iff:
  "unhandled_rejection (guessImage e hc img remote r1 r2) =
     (if key_present e then None else Some (configured_delay e))"
proof (cases "key_present e")
  case False
  then show ?thesis by (simp add: guessImage_key_missing)
next
  case True
  show ?thesis
    using race_cases[of "callOpenAI hc remote" "configured_delay e"] True
    by (auto simp: guessImage_success[OF True] guessImage_fallback[OF True])
qed

lemma aiService_timeout: "timeout (aiService u) = Some 30000"
  by (simp add: aiService_def AIService_config_def)

lemma browser_delay_30000: "browser_delay (Some 30000) = 30000"
  by (simp add: browser_delay_def to_int32_def)

lemma client_stalled_body:
  "t < browser_delay (timeout c) \<Longrightarrow>
     client_guessImage True img mime (callAIApi c (FetchResolves t JsonStalls)) r0 r1 r2 = None"
  by (simp add: client_guessImage_def callAIApi_def)

lemma fallback_pools_nonempty: "g \<in> set fallback_pools \<Longrightarrow> g \<noteq> []"
  by (auto simp: fallback_pools_def largeImageGuesses_def smallImageGuesses_def
      defaultGuesses_def)

lemma mock_guess_in_pools: "guess (getIntelligentMockResponse img reason r1 r2) \<in> set fallback_pools"
proof -
  have a: "largeImageGuesses ! random_index 4 r1 \<in> set largeImageGuesses"
    using random_index_less[of 4 r1] by (simp add: pool_lengths)
  have b: "smallImageGuesses ! random_index 4 r1 \<in> set smallImageGuesses"
    using random_index_less[of 4 r1] by (simp add: pool_lengths)
  have c: "defaultGuesses ! random_index 12 r1 \<in> set defaultGuesses"
    using random_index_less[of 12 r1] by (simp add: pool_lengths)
  show ?thesis
    using a b c by (simp add: mock_guess fallback_pools_def)
qed

lemma mock_log_line_nonempty: "reason \<noteq> [] \<Longrightarrow> mock_log_line (Some reason) = mock_log_prefix @ reason"
  by (simp add: mock_log_line_def)

lemma rate_limit_message_keywords:
  "\<not> str_includes msg_rate_limit kw_timeout"
  "\<not> str_includes msg_rate_limit kw_auth_failed"
  "str_includes msg_rate_limit kw_rate_limit"
  by (simp_all add: msg_rate_limit_def kw_timeout_def kw_auth_failed_def kw_rate_limit_def
      startsWith_def)


lemma guessImage_rate_limit:
  assumes "key_present e" "str_includes m (ascii ''429'')" "\<not> str_includes m (ascii ''401'')"
    "t < configured_delay e"
  shows "guessImage e True img (At t (Rejects (ErrorObj m))) r1 r2 =
       \<lparr>response = (getIntelligentMockResponse img (Some msg_rate_limit) r1 r2)
                      \<lparr>processingTime := real t, success := True\<rparr>,
        remote_calls = 1,
        catch_log = Some log_rate_limit,
        mock_log = Some (mock_log_prefix @ msg_rate_limit),
        unhandled_rejection = None\<rparr>"
proof -
  have c: "callOpenAI True (At t (Rejects (ErrorObj m))) = At t (Inl (ErrorObj msg_rate_limit))"
    using assms(2,3) by (simp add: callOpenAI_def)
  have r: "race (callOpenAI True (At t (Rejects (ErrorObj m)))) (configured_delay e)
             = (t, Inl (ErrorObj msg_rate_limit))"
    using assms(4) by (simp add: c race_error)
  have ne: "msg_rate_limit \<noteq> []" by (simp add: msg_rate_limit_def)
  from guessImage_fallback[OF assms(1) r] show ?thesis
    by (simp add: reason_of_def rate_limit_message_keywords mock_log_line_nonempty[OF ne])
qed

lemma client_mock_fields:
  "success (getMockResponse img r1 r2)"
  "error (getMockResponse img r1 r2) = None"
  by (simp_all add: getMockResponse_def split: prod.splits)

lemma client_mock_entry:
  "(guess (getMockResponse img r1 r2), confidence (getMockResponse img r1 r2),
      the (suggestions (getMockResponse img r1 r2))) \<in> set mockResponses"
proof -
  have n: "length mockResponses = 10" by (simp add: mockResponses_def)
  have "mockResponses ! random_index (length mockResponses) r1 \<in> set mockResponses"
    using random_index_less[of 10 r1] n by simp
  then show ?thesis
    by (auto simp: getMockResponse_def split: prod.splits)
qed

lemma client_guessImage_throws:
  "client_guessImage True img mime (At t ApiThrows) r0 r1 r2 =
     Some \<lparr>client_response = getMockResponse img r1 r2, api_calls = 1,
           resolved_at = t + mock_delay r0\<rparr>"
  by (simp add: client_guessImage_def)

lemma client_mock_guess: "guess (getMockResponse img r1 r2) \<in> fst ` set mockResponses"
  using client_mock_entry[of img r1 r2] by (metis fst_conv image_eqI)




lemma race_Inr: "race p d = (t, Inr v) \<Longrightarrow> p = At t (Inr v) \<and> t < d"
  by (auto simp: race_def split: settles.splits if_splits)

lemma callOpenAI_Inr:
  assumes "callOpenAI hc remote = At t (Inr (g, c, s))"
  shows "hc \<and> (\<exists>content. remote = At t (Resolves content) \<and> g = guess_of_content content
            \<and> c = confidence_band (length g) \<and> s = generateSmartSuggestions g)"
proof -
  have hc: hc using assms by (cases hc) (simp_all add: callOpenAI_def)
  show ?thesis
  proof (cases remote)
    case Never
    then show ?thesis using assms hc by (simp add: callOpenAI_def)
  next
    case (At t' r)
    show ?thesis
    proof (cases r)
      case (Rejects x)
      obtain y where "callOpenAI True (At t' (Rejects x)) = At t' (Inl y)"
        using callOpenAI_rejects by blast
      then show ?thesis using assms hc At Rejects by simp
    next
      case (Resolves content)
      then show ?thesis
        using assms hc At
        by (cases content)
          (auto simp: callOpenAI_def Let_def guess_of_content_def confidence_band_def)
    qed
  qed
qed

lemma guessImage_resolved:
  assumes "key_present e" "t < configured_delay e"
  shows "guessImage e True img (At t (Resolves content)) r1 r2 =
       \<lparr>response = \<lparr>guess = guess_of_content content,
                    confidence = confidence_band (length (guess_of_content content)),
                    processingTime = real t,
                    suggestions = Some (generateSmartSuggestions (guess_of_content content)),
                    success = True, error = None\<rparr>,
        remote_calls = 1, catch_log = None, mock_log = None, unhandled_rejection = None\<rparr>"
proof -
  have c: "callOpenAI True (At t (Resolves content)) =
      At t (Inr (guess_of_content content, confidence_band (length (guess_of_content content)),
                 generateSmartSuggestions (guess_of_content content)))"
    by (cases content)
      (simp_all add: callOpenAI_def Let_def guess_of_content_def confidence_band_def)
  have "race (callOpenAI True (At t (Resolves content))) (configured_delay e) =
      (t, Inr (guess_of_content content, confidence_band (length (guess_of_content content)),
                 generateSmartSuggestions (guess_of_content content)))"
    using assms(2) by (simp add: c race_def)
  from guessImage_success[OF assms(1) this] show ?thesis by simp
qed

lemma guessImage_fallback_shape:
  assumes "mock_log (guessImage e hc img remote r1 r2) \<noteq> None"
  shows "\<exists>t. response (guessImage e hc img remote r1 r2) =
           (getIntelligentMockResponse img None r1 r2)\<lparr>processingTime := t, success := True\<rparr>"
proof (cases "key_present e")
  case False
  have "getIntelligentMockResponse img None r1 r2 =
          (getIntelligentMockResponse img None r1 r2)
             \<lparr>processingTime := processingTime (getIntelligentMockResponse img None r1 r2),
              success := True\<rparr>"
    by (simp add: getIntelligentMockResponse_def Let_def)
  then show ?thesis using False by (metis guessImage_key_missing guess_run.select_convs(1))
next
  case True
  from race_cases[of "callOpenAI hc remote" "configured_delay e"] show ?thesis
  proof (elim disjE exE)
    fix t g c s
    assume "race (callOpenAI hc remote) (configured_delay e) = (t, Inr (g, c, s))"
    from guessImage_success[OF True this] assms show ?thesis by simp
  next
    fix t err
    assume "race (callOpenAI hc remote) (configured_delay e) = (t, Inl err)"
    from guessImage_fallback[OF True this, of img r1 r2] show ?thesis
      by (simp add: mock_reason_irrelevant[of img "Some (reason_of err)"]) blast
  qed
qed

lemma guessImage_remote_shape:
  assumes "mock_log (guessImage e hc img remote r1 r2) = None"
  shows "\<exists>t content. key_present e \<and> hc \<and> remote = At t (Resolves content)
           \<and> t < configured_delay e"
proof (cases "key_present e")
  case False
  then show ?thesis using assms by (simp add: guessImage_key_missing)
next
  case True
  from race_cases[of "callOpenAI hc remote" "configured_delay e"] show ?thesis
  proof (elim disjE exE)
    fix t g c s
    assume r: "race (callOpenAI hc remote) (configured_delay e) = (t, Inr (g, c, s))"
    from race_Inr[OF r] callOpenAI_Inr[of hc remote t g c s] True show ?thesis by auto
  next
    fix t err
    assume "race (callOpenAI hc remote) (configured_delay e) = (t, Inl err)"
    from guessImage_fallback[OF True this, of img r1 r2] assms show ?thesis by simp
  qed
qed

lemma generateSmartSuggestions_taxonomy: "generateSmartSuggestions g = taxonomy_suggestions g"
  by (simp add: generateSmartSuggestions_def taxonomy_suggestions_def taxonomy_def matches_def
      generic_suggestions_def Let_def)

lemma generateSmartSuggestions_length: "length (generateSmartSuggestions g) \<le> 4"
  by (simp add: generateSmartSuggestions_def Let_def)

lemma generateSmartSuggestions_not_fixed: "generateSmartSuggestions g \<noteq> smartSuggestions"
  by (simp add: generateSmartSuggestions_def smartSuggestions_def Let_def)

lemma guessImage_suggestions:
  "\<exists>s. suggestions (response (guessImage e hc img remote r1 r2)) = Some s \<and> length s \<le> 4"
proof (cases "mock_log (guessImage e hc img remote r1 r2)")
  case None
  from guessImage_remote_shape[OF None] obtain t content where
    k: "key_present e" "hc" "remote = At t (Resolves content)" "t < configured_delay e"
    by blast
  show ?thesis
    using k(2,3) by (simp add: guessImage_resolved[OF k(1,4)] generateSmartSuggestions_length)
next
  case (Some l)
  then have "mock_log (guessImage e hc img remote r1 r2) \<noteq> None" by simp
  from guessImage_fallback_shape[OF this] obtain t where
    "response (guessImage e hc img remote r1 r2) =
       (getIntelligentMockResponse img None r1 r2)\<lparr>processingTime := t, success := True\<rparr>"
    by blast
  then show ?thesis by (simp add: mock_fields smartSuggestions_def)
qed

lemma client_mock_suggestions:
  "\<exists>s. suggestions (getMockResponse img r1 r2) = Some s \<and> length s = 3"
proof -
  have all: "\<forall>x \<in> set mockResponses. length (snd (snd x)) = 3"
    by (simp add: mockResponses_def)
  have n: "length mockResponses = 10" by (simp add: mockResponses_def)
  have "mockResponses ! random_index (length mockResponses) r1 \<in> set mockResponses"
    using random_index_less[of 10 r1] n by simp
  with all have "length (snd (snd (mockResponses ! random_index (length mockResponses) r1))) = 3"
    by blast
  then show ?thesis by (auto simp: getMockResponse_def split: prod.splits)
qed

lemma pool_for_props:
  "0 < length (pool_for img)" "distinct (pool_for img)"
  by (simp_all add: pool_for_def largeImageGuesses_def smallImageGuesses_def defaultGuesses_def)

lemma mock_guess_pool:
  "guess (getIntelligentMockResponse img reason r1 r2)
     = pool_for img ! random_index (length (pool_for img)) r1"
  by (simp add: getIntelligentMockResponse_def Let_def pool_for_def)

lemma pool_for_length: "length (pool_for img) < 2 ^ 53"
  by (simp add: pool_for_def pool_lengths)

lemma mock_responses_props:
  "length mockResponses = 10" "distinct (map (fst \<circ> snd) mockResponses)"
  by (simp_all add: mockResponses_def)

lemma confidence_band_mono: "n \<le> n' \<Longrightarrow> confidence_band n \<le> confidence_band n'"
  by (simp add: confidence_band_def)

section \<open>The claims about the guess services\<close>

text \<open>
  C1, at the input on which the code fails. Without an API key the server's \<open>guessImage\<close>
  returns the fallback response with \<open>success = True\<close> and calls no remote service, but the
  timeout promise it created before looking at the key is handed to nobody: 60000 ms later
  it rejects unhandled, which ends the server process. With a key the same promise goes
  into \<open>Promise.race\<close> and nothing is left unhandled. On the client, a response whose body
  never arrives leaves \<open>guessImage\<close> pending for ever, because the abort timer was cleared
  when the head arrived.
\<close>

theorem no_key_run_leaves_rejection_unhandled:
  "response (guessImage env_without_key True small_png Never rand_zero rand_half)
       = getIntelligentMockResponse small_png None rand_zero rand_half
   \<and> success (response (guessImage env_without_key True small_png Never rand_zero rand_half))
   \<and> remote_calls (guessImage env_without_key True small_png Never rand_zero rand_half) = 0
   \<and> unhandled_rejection (guessImage env_without_key True small_png Never rand_zero rand_half)
       = Some 60000
   \<and> unhandled_rejection (guessImage env_with_key True small_png Never rand_zero rand_half)
       = None
   \<and> client_guessImage True small_png (ascii ''image/png'')
         (callAIApi (aiService local_url) stalled_response) rand_zero rand_zero rand_half = None"
proof -
  have a: "\<not> key_present env_without_key" by (simp add: key_present_def env_without_key_def)
  have b: "key_present env_with_key" by (simp add: key_present_def env_with_key_def ascii_def)
  have d: "configured_delay env_without_key = 60000"
    by (simp add: configured_delay_def env_without_key_def timer_delay_def)
  have c: "(120::nat) < browser_delay (timeout (aiService local_url))"
    by (simp add: aiService_timeout browser_delay_30000)
  show ?thesis
    using a b d client_stalled_body[OF c]
    by (simp add: guessImage_key_missing mock_fields unhandled_rejection_iff
        stalled_response_def)
qed

text \<open>
  C2, as the code has it. An error thrown by the remote call is absorbed: the server's run
  ends with \<open>success = True\<close>, a non-empty guess from the three pools and no \<open>error\<close> field;
  the reason appears only in the line the fallback writes to the console. The same holds
  for every run in which the fallback ran, whatever made it run (a thrown error, a missing
  client, the timeout). For an error
  whose message contains \<open>429\<close> and does not contain \<open>401\<close> (which \<open>callOpenAI\<close> looks for
  first) and that arrives before the timer fires, that line carries the rate-limit
  message, which contains the keyword the \<open>catch\<close> block looks for. The client's fallback
  after a failed call is one of its ten canned answers, also without an \<open>error\<close> field.
\<close>

theorem absorbed_error_unlabelled_fallback:
  assumes "key_present e"
    and "str_includes m (ascii ''429'')" and "\<not> str_includes m (ascii ''401'')"
    and "t < configured_delay e"
  shows
  "success (response (guessImage e hc img (At t' (Rejects x)) r1 r2))
   \<and> error (response (guessImage e hc img (At t' (Rejects x)) r1 r2)) = None
   \<and> guess (response (guessImage e hc img (At t' (Rejects x)) r1 r2)) \<noteq> []
   \<and> guess (response (guessImage e hc img (At t' (Rejects x)) r1 r2)) \<in> set fallback_pools
   \<and> (\<exists>reason. mock_log (guessImage e hc img (At t' (Rejects x)) r1 r2)
                   = Some (mock_log_line (Some reason)))
   \<and> (mock_log (guessImage e hc img remote r1 r2) \<noteq> None \<longrightarrow>
        success (response (guessImage e hc img remote r1 r2))
        \<and> error (response (guessImage e hc img remote r1 r2)) = None
        \<and> guess (response (guessImage e hc img remote r1 r2)) \<noteq> []
        \<and> guess (response (guessImage e hc img remote r1 r2)) \<in> set fallback_pools)
   \<and> mock_log (guessImage e True img (At t (Rejects (ErrorObj m))) r1 r2)
       = Some (mock_log_prefix @ msg_rate_limit)
   \<and> catch_log (guessImage e True img (At t (Rejects (ErrorObj m))) r1 r2) = Some log_rate_limit
   \<and> str_includes msg_rate_limit kw_rate_limit
   \<and> client_guessImage True img mime (At t' ApiThrows) r0 r1 r2 =
       Some \<lparr>client_response = getMockResponse img r1 r2, api_calls = 1,
             resolved_at = t' + mock_delay r0\<rparr>
   \<and> success (getMockResponse img r1 r2)
   \<and> error (getMockResponse img r1 r2) = None
   \<and> guess (getMockResponse img r1 r2) \<in> fst ` set mockResponses
   \<and> length mockResponses = 10"
proof -
  let ?run = "guessImage e hc img (At t' (Rejects x)) r1 r2"
  have "\<exists>t'' err. race (callOpenAI hc (At t' (Rejects x))) (configured_delay e) = (t'', Inl err)"
  proof (cases hc)
    case False
    then show ?thesis
      using configured_delay_pos[of e] by (simp add: callOpenAI_no_client race_error)
  next
    case True
    obtain y where "callOpenAI True (At t' (Rejects x)) = At t' (Inl y)"
      using callOpenAI_rejects by blast
    then show ?thesis
      using True by (cases "t' < configured_delay e") (simp_all add: race_error)
  qed
  then obtain t'' err where
    r: "race (callOpenAI hc (At t' (Rejects x))) (configured_delay e) = (t'', Inl err)"
    by blast
  note f = guessImage_fallback[OF assms(1) r, of img r1 r2]
  have 1: "success (response ?run)" by (simp add: f)
  have 2: "error (response ?run) = None" by (simp add: f mock_fields)
  have 3: "guess (response ?run) \<in> set fallback_pools" by (simp add: f mock_guess_in_pools)
  have 4: "guess (response ?run) \<noteq> []" using 3 by (rule fallback_pools_nonempty)
  have 5: "\<exists>reason. mock_log ?run = Some (mock_log_line (Some reason))"
    unfolding f by (intro exI[of _ "reason_of err"]) simp
  note g = guessImage_rate_limit[OF assms, of img r1 r2]
  have 6: "length mockResponses = 10" by (simp add: mockResponses_def)
  have 7: "mock_log (guessImage e hc img remote r1 r2) \<noteq> None \<longrightarrow>
        success (response (guessImage e hc img remote r1 r2))
        \<and> error (response (guessImage e hc img remote r1 r2)) = None
        \<and> guess (response (guessImage e hc img remote r1 r2)) \<noteq> []
        \<and> guess (response (guessImage e hc img remote r1 r2)) \<in> set fallback_pools"
  proof
    assume m: "mock_log (guessImage e hc img remote r1 r2) \<noteq> None"
    from guessImage_fallback_shape[OF m] obtain u where
      u: "response (guessImage e hc img remote r1 r2) =
         (getIntelligentMockResponse img None r1 r2)\<lparr>processingTime := u, success := True\<rparr>"
      by blast
    have "guess (response (guessImage e hc img remote r1 r2)) \<in> set fallback_pools"
      by (simp add: u mock_guess_in_pools)
    then show "success (response (guessImage e hc img remote r1 r2))
        \<and> error (response (guessImage e hc img remote r1 r2)) = None
        \<and> guess (response (guessImage e hc img remote r1 r2)) \<noteq> []
        \<and> guess (response (guessImage e hc img remote r1 r2)) \<in> set fallback_pools"
      using fallback_pools_nonempty by (simp add: u mock_fields)
  qed
  have 8: "success (response ?run) \<and> error (response ?run) = None
           \<and> guess (response ?run) \<noteq> [] \<and> guess (response ?run) \<in> set fallback_pools
           \<and> (\<exists>reason. mock_log ?run = Some (mock_log_line (Some reason)))"
    using 1 2 3 4 5 by blast
  have 9: "mock_log (guessImage e True img (At t (Rejects (ErrorObj m))) r1 r2)
             = Some (mock_log_prefix @ msg_rate_limit)
           \<and> catch_log (guessImage e True img (At t (Rejects (ErrorObj m))) r1 r2)
             = Some log_rate_limit
           \<and> str_includes msg_rate_limit kw_rate_limit"
    by (simp add: g rate_limit_message_keywords)
  have 10: "client_guessImage True img mime (At t' ApiThrows) r0 r1 r2 =
       Some \<lparr>client_response = getMockResponse img r1 r2, api_calls = 1,
             resolved_at = t' + mock_delay r0\<rparr>
     \<and> success (getMockResponse img r1 r2)
     \<and> error (getMockResponse img r1 r2) = None
     \<and> guess (getMockResponse img r1 r2) \<in> fst ` set mockResponses
     \<and> length mockResponses = 10"
    using 6 client_mock_guess[of img r1 r2]
    by (simp add: client_guessImage_throws client_mock_fields)
  from 7 8 9 10 show ?thesis by blast
qed

theorem absorbed_error_unlabelled_fallback_witness:
  "key_present env_with_key
   \<and> str_includes (ascii ''429 Too Many Requests'') (ascii ''429'')
   \<and> \<not> str_includes (ascii ''429 Too Many Requests'') (ascii ''401'')
   \<and> 5 < configured_delay env_with_key
   \<and> success (response (guessImage env_with_key True small_png (At 5 (Rejects error_429))
         rand_zero rand_half))
   \<and> error (response (guessImage env_with_key True small_png (At 5 (Rejects error_429))
         rand_zero rand_half)) = None
   \<and> mock_log (guessImage env_with_key True small_png (At 5 (Rejects error_429))
         rand_zero rand_half) = Some (mock_log_prefix @ msg_rate_limit)
   \<and> catch_log (guessImage env_with_key True small_png (At 5 (Rejects error_429))
         rand_zero rand_half) = Some log_rate_limit"
proof -
  have a: "key_present env_with_key" by (simp add: key_present_def env_with_key_def ascii_def)
  have b: "str_includes (ascii ''429 Too Many Requests'') (ascii ''429'')"
    by (simp add: ascii_def startsWith_def)
  have c: "\<not> str_includes (ascii ''429 Too Many Requests'') (ascii ''401'')"
    by (simp add: ascii_def startsWith_def)
  have d: "5 < configured_delay env_with_key"
    by (simp add: configured_delay_def env_with_key_def timer_delay_def)
  show ?thesis
    using absorbed_error_unlabelled_fallback[OF a b c d, where hc = True and img = small_png
        and t' = 5 and x = error_429 and ?r1.0 = rand_zero and ?r2.0 = rand_half
        and remote = "At 5 (Rejects error_429)" and mime = "ascii ''image/png''"
        and ?r0.0 = rand_zero] a b c d
    by (simp add: error_429_def)
qed

text \<open>
  The run behind the scenario of C2 (the remote call fails with a 429 error): the response
  has no \<open>error\<close> field, although the \<open>catch\<close> block recognised the rate limit.
\<close>

theorem rate_limit_fallback_has_no_reason_field:
  "error (response (guessImage env_with_key True small_png (At 5 (Rejects error_429))
       rand_zero rand_half)) = None
   \<and> catch_log (guessImage env_with_key True small_png (At 5 (Rejects error_429))
       rand_zero rand_half) = Some log_rate_limit"
proof -
  have a: "key_present env_with_key" by (simp add: key_present_def env_with_key_def ascii_def)
  have b: "str_includes (ascii ''429 Too Many Requests'') (ascii ''429'')"
    by (simp add: ascii_def startsWith_def)
  have c: "\<not> str_includes (ascii ''429 Too Many Requests'') (ascii ''401'')"
    by (simp add: ascii_def startsWith_def)
  have d: "5 < configured_delay env_with_key"
    by (simp add: configured_delay_def env_with_key_def timer_delay_def)
  show ?thesis
    by (simp add: error_429_def guessImage_rate_limit[OF a b c d] mock_fields)
qed




text \<open>
  C7, as the code has it. The server's fallback takes its guess from the pool selected by
  the length of the image string: the large-image pool above 100000, the small-image pool
  below 10000, the everyday-object pool otherwise. The index is
  \<open>Math.floor(Math.random() * n)\<close> for the \<open>n\<close> distinct phrases of the pool, computed on
  doubles, and lies inside the pool. For a random value \<open>r = m / 2^s\<close>, phrase number \<open>i\<close> is
  chosen whenever \<open>i/n \<le> r\<close> and \<open>r + 2^-s \<le> (i+1)/n\<close>, and only when \<open>i/n < r + 2^-s\<close> and
  \<open>r < (i+1)/n\<close>: every phrase has the same share of the random values, up to one step
  \<open>2^-s\<close> at each end of its interval. The confidence is 0.7 when the string starts with
  \<open>data:image/\<close> and 0.6 otherwise. Every fallback run of the server's \<open>guessImage\<close> has
  this guess and this confidence. The client's fallback is one of ten canned answers with
  ten different confidences.
\<close>

theorem server_fallback_pool_and_confidence:
  "guess (getIntelligentMockResponse img reason r1 r2)
       = pool_for img ! random_index (length (pool_for img)) r1
   \<and> random_index (length (pool_for img)) r1 < length (pool_for img)
   \<and> pool_for img = (if length img > 100000 then largeImageGuesses
                     else if length img < 10000 then smallImageGuesses
                     else defaultGuesses)
   \<and> distinct (pool_for img)
   \<and> (i * 2 ^ rand_scale r1 \<le> rand_mantissa r1 * length (pool_for img)
        \<and> (rand_mantissa r1 + 1) * length (pool_for img) \<le> (i + 1) * 2 ^ rand_scale r1
        \<longrightarrow> guess (getIntelligentMockResponse img reason r1 r2) = pool_for img ! i)
   \<and> (j < length (pool_for img)
        \<and> guess (getIntelligentMockResponse img reason r1 r2) = pool_for img ! j
        \<longrightarrow> j * 2 ^ rand_scale r1 < (rand_mantissa r1 + 1) * length (pool_for img)
            \<and> rand_mantissa r1 * length (pool_for img) < (j + 1) * 2 ^ rand_scale r1)
   \<and> confidence (getIntelligentMockResponse img reason r1 r2)
       = (if startsWith img (ascii ''data:image/'') then 0.7 else 0.6)
   \<and> (mock_log (guessImage e hc img remote r1 r2) \<noteq> None \<longrightarrow>
        guess (response (guessImage e hc img remote r1 r2))
          = guess (getIntelligentMockResponse img None r1 r2)
        \<and> confidence (response (guessImage e hc img remote r1 r2))
          = confidence (getIntelligentMockResponse img None r1 r2))
   \<and> (guess (getMockResponse img r3 r4), confidence (getMockResponse img r3 r4),
        the (suggestions (getMockResponse img r3 r4))) \<in> set mockResponses
   \<and> length mockResponses = 10
   \<and> distinct (map (fst \<circ> snd) mockResponses)"
proof (intro conjI impI)
  let ?n = "length (pool_for img)"
  note pos = pool_for_props(1)[of img]
  note small = pool_for_length[of img]
  show g: "guess (getIntelligentMockResponse img reason r1 r2) = pool_for img ! random_index ?n r1"
    by (rule mock_guess_pool)
  show lt: "random_index ?n r1 < ?n"
    by (rule random_index_less[OF pos small])
  show "pool_for img = (if length img > 100000 then largeImageGuesses
                     else if length img < 10000 then smallImageGuesses
                     else defaultGuesses)"
    by (simp add: pool_for_def)
  show "distinct (pool_for img)" by (rule pool_for_props(2))
  show "confidence (getIntelligentMockResponse img reason r1 r2)
       = (if startsWith img (ascii ''data:image/'') then 0.7 else 0.6)"
    by (rule mock_fields(4))
  show "(guess (getMockResponse img r3 r4), confidence (getMockResponse img r3 r4),
        the (suggestions (getMockResponse img r3 r4))) \<in> set mockResponses"
    by (rule client_mock_entry)
  show "length mockResponses = 10" by (rule mock_responses_props(1))
  show "distinct (map (fst \<circ> snd) mockResponses)" by (rule mock_responses_props(2))
  show "guess (getIntelligentMockResponse img reason r1 r2) = pool_for img ! i"
    if h: "i * 2 ^ rand_scale r1 \<le> rand_mantissa r1 * ?n
           \<and> (rand_mantissa r1 + 1) * ?n \<le> (i + 1) * 2 ^ rand_scale r1"
  proof -
    have "i \<le> random_index ?n r1" using h by (intro random_index_ge[OF small]) simp
    moreover have "random_index ?n r1 \<le> i" using h by (intro random_index_le[OF pos small]) simp
    ultimately show ?thesis by (simp add: g)
  qed
  show "j * 2 ^ rand_scale r1 < (rand_mantissa r1 + 1) * ?n"
    and "rand_mantissa r1 * ?n < (j + 1) * 2 ^ rand_scale r1"
    if h: "j < ?n \<and> guess (getIntelligentMockResponse img reason r1 r2) = pool_for img ! j"
  proof -
    have "pool_for img ! random_index ?n r1 = pool_for img ! j" using h g by simp
    then have "random_index ?n r1 = j"
      using h lt pool_for_props(2)[of img] nth_eq_iff_index_eq by blast
    from random_index_only[OF pos small this]
    show "j * 2 ^ rand_scale r1 < (rand_mantissa r1 + 1) * ?n"
      and "rand_mantissa r1 * ?n < (j + 1) * 2 ^ rand_scale r1"
      by simp_all
  qed
next
  assume m: "mock_log (guessImage e hc img remote r1 r2) \<noteq> None"
  from guessImage_fallback_shape[OF m] obtain t where
    t: "response (guessImage e hc img remote r1 r2) =
       (getIntelligentMockResponse img None r1 r2)\<lparr>processingTime := t, success := True\<rparr>"
    by blast
  show "guess (response (guessImage e hc img remote r1 r2))
          = guess (getIntelligentMockResponse img None r1 r2)"
    by (simp add: t)
  show "confidence (response (guessImage e hc img remote r1 r2))
          = confidence (getIntelligentMockResponse img None r1 r2)"
    by (simp add: t)
qed

theorem server_fallback_pool_and_confidence_witness:
  "2 * 2 ^ rand_scale rand_half \<le> rand_mantissa rand_half * length (pool_for small_png)
   \<and> (rand_mantissa rand_half + 1) * length (pool_for small_png)
       \<le> (2 + 1) * 2 ^ rand_scale rand_half
   \<and> 2 < length (pool_for small_png)
   \<and> mock_log (guessImage env_without_key True small_png Never rand_half rand_zero) \<noteq> None
   \<and> pool_for small_png = smallImageGuesses
   \<and> guess (getIntelligentMockResponse small_png None rand_half rand_zero) = smallImageGuesses ! 2
   \<and> guess (response (guessImage env_without_key True small_png Never rand_half rand_zero))
       = smallImageGuesses ! 2
   \<and> confidence (response (guessImage env_without_key True small_png Never rand_half rand_zero))
       = 0.7"
proof -
  have len: "length small_png < 10000" by (simp add: small_png_def ascii_def)
  have p: "pool_for small_png = smallImageGuesses" using len by (simp add: pool_for_def)
  have a: "2 < length (pool_for small_png)" by (simp add: p pool_lengths)
  have k: "\<not> key_present env_without_key" by (simp add: key_present_def env_without_key_def)
  have b: "mock_log (guessImage env_without_key True small_png Never rand_half rand_zero) \<noteq> None"
    by (simp add: guessImage_key_missing[OF k])
  have s: "startsWith small_png (ascii ''data:image/'')"
    by (simp add: small_png_def ascii_def startsWith_def)
  have h1: "2 * 2 ^ rand_scale rand_half \<le> rand_mantissa rand_half * length (pool_for small_png)"
    by (simp add: p pool_lengths rand_mantissa.rep_eq rand_scale.rep_eq rand_half.rep_eq)
  have h2: "(rand_mantissa rand_half + 1) * length (pool_for small_png)
       \<le> (2 + 1) * 2 ^ rand_scale rand_half"
    by (simp add: p pool_lengths rand_mantissa.rep_eq rand_scale.rep_eq rand_half.rep_eq)
  note t = server_fallback_pool_and_confidence[of small_png None rand_half rand_zero 2 2
      env_without_key True Never rand_zero rand_zero]
  have "guess (getIntelligentMockResponse small_png None rand_half rand_zero)
             = pool_for small_png ! 2"
    using t h1 h2 by blast
  then have g: "guess (getIntelligentMockResponse small_png None rand_half rand_zero)
             = smallImageGuesses ! 2"
    by (simp add: p)
  have g2: "guess (response (guessImage env_without_key True small_png Never rand_half rand_zero))
       = smallImageGuesses ! 2"
    using t b g by simp
  have c: "confidence (response (guessImage env_without_key True small_png Never rand_half rand_zero))
       = 0.7"
    using t b s by simp
  show ?thesis using h1 h2 a b p g g2 c by blast
qed

text \<open>
  The client's fallback, the one used in offline mode, does not follow the contract of C7:
  for an image with the \<open>data:image/\<close> marker it answers with a canned phrase that is in
  none of the three pools, with confidence 0.92 for one random value and 0.94 for another.
\<close>

theorem client_fallback_outside_pools:
  "startsWith small_png (ascii ''data:image/'')
   \<and> map_option (guess \<circ> client_response)
        (client_guessImage False small_png (ascii ''image/png'') Never rand_zero rand_zero rand_half)
       = Some [0x4E00, 0x53EA, 0x53EF, 0x7231, 0x7684, 0x732B, 0x54AA]
   \<and> [0x4E00, 0x53EA, 0x53EF, 0x7231, 0x7684, 0x732B, 0x54AA] \<notin> set fallback_pools
   \<and> map_option (confidence \<circ> client_response)
        (client_guessImage False small_png (ascii ''image/png'') Never rand_zero rand_zero rand_half)
       = Some 0.92
   \<and> map_option (confidence \<circ> client_response)
        (client_guessImage False small_png (ascii ''image/png'') Never rand_zero rand_half rand_half)
       = Some 0.94"
proof -
  have s: "startsWith small_png (ascii ''data:image/'')"
    by (simp add: small_png_def ascii_def startsWith_def)
  have n: "length mockResponses = 10" by (simp add: mockResponses_def)
  have i0: "random_index (length mockResponses) rand_zero = 0"
    by (rule random_index_zero)
  have i5: "random_index (length mockResponses) rand_half = 5"
    by (simp add: n random_index_half_10)
  have m0: "mockResponses ! 0 = ([0x4E00, 0x53EA, 0x53EF, 0x7231, 0x7684, 0x732B, 0x54AA], 0.92,
       [[0x732B], [0x5BA0, 0x7269], [0x5C0F, 0x732B]])"
    by (simp add: mockResponses_def)
  have m5: "mockResponses ! 5 = ([0x9EC4, 0x8272, 0x7684, 0x592A, 0x9633], 0.94,
       [[0x592A, 0x9633], [0x9633, 0x5149], [0x9EC4, 0x8272]])"
    by (simp add: mockResponses_def)
  have g: "[0x4E00, 0x53EA, 0x53EF, 0x7231, 0x7684, 0x732B, 0x54AA] \<notin> set fallback_pools"
    by (simp add: fallback_pools_def largeImageGuesses_def smallImageGuesses_def
        defaultGuesses_def)
  show ?thesis
    using s g by (simp add: client_guessImage_def getMockResponse_def i0 i5 m0 m5)
qed

text \<open>
  C8, as the code has it. When the remote call resolves before the timer fires, the guess is
  the trimmed content of the response, or the fixed 8-character text when the content is
  missing or trims to the empty string, and the confidence is read off the length of that
  guess: 0.7 below 5 code units, 0.9 above 20, 0.8 otherwise. It is monotone in the length
  of the guess.
\<close>

theorem remote_confidence_from_guess_length:
  assumes "key_present e" and "t < configured_delay e"
  shows
  "guess (response (guessImage e True img (At t (Resolves content)) r1 r2))
       = (case content of
            None \<Rightarrow> msg_unrecognized
          | Some c \<Rightarrow> if trim c = [] then msg_unrecognized else trim c)
   \<and> confidence (response (guessImage e True img (At t (Resolves content)) r1 r2))
       = confidence_band
           (length (guess (response (guessImage e True img (At t (Resolves content)) r1 r2))))
   \<and> confidence_band n = (if n > 20 then 0.9 else if n < 5 then 0.7 else 0.8)
   \<and> length msg_unrecognized = 8
   \<and> (length (guess (response (guessImage e True img (At t (Resolves content)) r1 r2)))
         \<le> length (guess (response (guessImage e True img (At t (Resolves content')) r1 r2)))
       \<longrightarrow> confidence (response (guessImage e True img (At t (Resolves content)) r1 r2))
             \<le> confidence (response (guessImage e True img (At t (Resolves content')) r1 r2)))"
proof -
  note r = guessImage_resolved[OF assms]
  have 1: "guess (response (guessImage e True img (At t (Resolves content)) r1 r2))
       = (case content of
            None \<Rightarrow> msg_unrecognized
          | Some c \<Rightarrow> if trim c = [] then msg_unrecognized else trim c)"
    by (simp add: r guess_of_content_def)
  have 2: "confidence (response (guessImage e True img (At t (Resolves content)) r1 r2))
       = confidence_band
           (length (guess (response (guessImage e True img (At t (Resolves content)) r1 r2))))"
    by (simp add: r)
  have 3: "confidence_band n = (if n > 20 then 0.9 else if n < 5 then 0.7 else 0.8)"
    by (simp add: confidence_band_def)
  have 4: "length msg_unrecognized = 8" by (simp add: msg_unrecognized_def)
  have 5: "length (guess (response (guessImage e True img (At t (Resolves content)) r1 r2)))
         \<le> length (guess (response (guessImage e True img (At t (Resolves content')) r1 r2)))
       \<longrightarrow> confidence (response (guessImage e True img (At t (Resolves content)) r1 r2))
             \<le> confidence (response (guessImage e True img (At t (Resolves content')) r1 r2))"
    by (simp add: r confidence_band_mono)
  from 1 2 3 4 5 show ?thesis by blast
qed

theorem remote_confidence_from_guess_length_witness:
  "key_present env_with_key \<and> 5 < configured_delay env_with_key
   \<and> guess (response (guessImage env_with_key True small_png (At 5 (Resolves (Some answer_cat)))
        rand_zero rand_half)) = answer_cat
   \<and> guess (response (guessImage env_with_key True small_png (At 5 (Resolves (Some answer_sentence)))
        rand_zero rand_half)) = ascii ''a small cat sitting on a mat''
   \<and> confidence (response (guessImage env_with_key True small_png (At 5 (Resolves (Some answer_cat)))
        rand_zero rand_half)) = 0.7
   \<and> confidence (response (guessImage env_with_key True small_png
        (At 5 (Resolves (Some answer_sentence))) rand_zero rand_half)) = 0.9
   \<and> confidence (response (guessImage env_with_key True small_png (At 5 (Resolves (Some answer_cat)))
        rand_zero rand_half))
      \<le> confidence (response (guessImage env_with_key True small_png
        (At 5 (Resolves (Some answer_sentence))) rand_zero rand_half))"
proof -
  have a: "key_present env_with_key" by (simp add: key_present_def env_with_key_def ascii_def)
  have b: "5 < configured_delay env_with_key"
    by (simp add: configured_delay_def env_with_key_def timer_delay_def)
  have t1: "trim answer_cat = answer_cat"
    by (simp add: trim_def answer_cat_def isWhiteSpace_def)
  have t2: "trim answer_sentence = ascii ''a small cat sitting on a mat''"
    by (simp add: trim_def answer_sentence_def ascii_def isWhiteSpace_def)
  have l1: "length answer_cat = 1" by (simp add: answer_cat_def)
  have l2: "length (ascii ''a small cat sitting on a mat'') = 28" by (simp add: ascii_def)
  have n1: "answer_cat \<noteq> []" by (simp add: answer_cat_def)
  have n2: "ascii ''a small cat sitting on a mat'' \<noteq> []" by (simp add: ascii_def)
  note u1 = remote_confidence_from_guess_length[OF a b, of small_png "Some answer_cat"
      rand_zero rand_half 1 "Some answer_sentence"]
  note u2 = remote_confidence_from_guess_length[OF a b, of small_png "Some answer_sentence"
      rand_zero rand_half 28 "Some answer_cat"]
  have g1: "guess (response (guessImage env_with_key True small_png (At 5 (Resolves (Some answer_cat)))
        rand_zero rand_half)) = answer_cat"
    using u1 by (simp add: t1 n1)
  have g2: "guess (response (guessImage env_with_key True small_png
        (At 5 (Resolves (Some answer_sentence))) rand_zero rand_half))
          = ascii ''a small cat sitting on a mat''"
    using u2 n2 by (simp add: t2)
  have c1: "confidence (response (guessImage env_with_key True small_png
        (At 5 (Resolves (Some answer_cat))) rand_zero rand_half)) = 0.7"
    using u1 by (simp add: g1 l1)
  have c2: "confidence (response (guessImage env_with_key True small_png
        (At 5 (Resolves (Some answer_sentence))) rand_zero rand_half)) = 0.9"
    using u2 by (simp add: g2 l2)
  have le: "confidence (response (guessImage env_with_key True small_png
        (At 5 (Resolves (Some answer_cat))) rand_zero rand_half))
      \<le> confidence (response (guessImage env_with_key True small_png
        (At 5 (Resolves (Some answer_sentence))) rand_zero rand_half))"
    by (simp add: c1 c2)
  from a b g1 g2 c1 c2 le show ?thesis by blast
qed

text \<open>
  The length of the remote model's text does not determine the confidence monotonically: an
  empty answer (length 0) is replaced by the fixed text and gets 0.8, a one-character
  answer gets 0.7.
\<close>

theorem empty_answer_outranks_short_answer:
  "length ([] :: jsstring) < length answer_cat
   \<and> confidence (response (guessImage env_with_key True small_png (At 5 (Resolves (Some [])))
        rand_zero rand_half)) = 0.8
   \<and> confidence (response (guessImage env_with_key True small_png (At 5 (Resolves (Some answer_cat)))
        rand_zero rand_half)) = 0.7"
proof -
  have a: "key_present env_with_key" by (simp add: key_present_def env_with_key_def ascii_def)
  have b: "5 < configured_delay env_with_key"
    by (simp add: configured_delay_def env_with_key_def timer_delay_def)
  have g0: "guess_of_content (Some []) = msg_unrecognized"
    by (simp add: guess_of_content_def trim_def)
  have g1: "guess_of_content (Some answer_cat) = answer_cat"
    by (simp add: guess_of_content_def trim_def answer_cat_def isWhiteSpace_def)
  have l0: "length msg_unrecognized = 8" by (simp add: msg_unrecognized_def)
  have l1: "length answer_cat = 1" by (simp add: answer_cat_def)
  show ?thesis
    by (simp add: guessImage_resolved[OF a b] g0 g1 l0 l1 confidence_band_def)
qed

text \<open>
  C9. Every run of the server's \<open>guessImage\<close> returns a suggestions list of at most four
  entries; on the remote path it is \<open>generateSmartSuggestions\<close> of the returned guess, which
  agrees with the taxonomy of the specification: the suggestions of the categories one of
  whose keywords occurs in the guess, in order, or the general set when none does, cut to
  four. The client's mock answers carry three suggestions, and a response of the server
  relayed by the client keeps its (at most four) suggestions.
\<close>

theorem suggestions_at_most_four:
  "(\<exists>s. suggestions (response (guessImage e hc img remote r1 r2)) = Some s \<and> length s \<le> 4)
   \<and> (mock_log (guessImage e hc img remote r1 r2) = None \<longrightarrow>
        suggestions (response (guessImage e hc img remote r1 r2))
          = Some (generateSmartSuggestions (guess (response (guessImage e hc img remote r1 r2)))))
   \<and> generateSmartSuggestions g = taxonomy_suggestions g
   \<and> length (generateSmartSuggestions g) \<le> 4
   \<and> (filter (matches g') taxonomy = [] \<longrightarrow> generateSmartSuggestions g' = generic_suggestions)
   \<and> (\<exists>s. suggestions (getMockResponse img r1 r2) = Some s \<and> length s = 3)
   \<and> (\<exists>run s. client_guessImage True img mime
               (At t (ApiReturns (served (response (guessImage e hc img remote r1 r2))))) r0 r3 r4
             = Some run \<and> suggestions (client_response run) = Some s \<and> length s \<le> 4)"
proof (intro conjI impI)
  show a: "\<exists>s. suggestions (response (guessImage e hc img remote r1 r2)) = Some s \<and> length s \<le> 4"
    by (rule guessImage_suggestions)
  show "generateSmartSuggestions g = taxonomy_suggestions g"
    by (rule generateSmartSuggestions_taxonomy)
  show "length (generateSmartSuggestions g) \<le> 4"
    by (rule generateSmartSuggestions_length)
  show "\<exists>s. suggestions (getMockResponse img r1 r2) = Some s \<and> length s = 3"
    by (rule client_mock_suggestions)
  from a obtain s where
    s: "suggestions (response (guessImage e hc img remote r1 r2)) = Some s" "length s \<le> 4"
    by blast
  show "\<exists>run s. client_guessImage True img mime
               (At t (ApiReturns (served (response (guessImage e hc img remote r1 r2))))) r0 r3 r4
             = Some run \<and> suggestions (client_response run) = Some s \<and> length s \<le> 4"
    using s by (simp add: client_guessImage_def served_def)
next
  assume m: "mock_log (guessImage e hc img remote r1 r2) = None"
  from guessImage_remote_shape[OF m] obtain t content where
    k: "key_present e" "hc" "remote = At t (Resolves content)" "t < configured_delay e"
    by blast
  show "suggestions (response (guessImage e hc img remote r1 r2))
          = Some (generateSmartSuggestions (guess (response (guessImage e hc img remote r1 r2))))"
    using k(2,3) by (simp add: guessImage_resolved[OF k(1,4)])
next
  assume "filter (matches g') taxonomy = []"
  then show "generateSmartSuggestions g' = generic_suggestions"
    by (simp add: generateSmartSuggestions_taxonomy taxonomy_suggestions_def
        generic_suggestions_def)
qed

theorem suggestions_at_most_four_witness:
  "mock_log (guessImage env_with_key True small_png (At 5 (Resolves (Some guess_a_cat)))
       rand_zero rand_half) = None
   \<and> filter (matches (ascii ''a kite'')) taxonomy = []
   \<and> suggestions (response (guessImage env_with_key True small_png
       (At 5 (Resolves (Some guess_a_cat))) rand_zero rand_half))
       = Some [[0x52A8, 0x7269], [0x5BA0, 0x7269], [0x54FA, 0x4E73, 0x52A8, 0x7269]]
   \<and> generateSmartSuggestions (ascii ''a kite'') = generic_suggestions"
proof -
  have a: "key_present env_with_key" by (simp add: key_present_def env_with_key_def ascii_def)
  have b: "5 < configured_delay env_with_key"
    by (simp add: configured_delay_def env_with_key_def timer_delay_def)
  have g1: "guess_of_content (Some guess_a_cat) = guess_a_cat"
    by (simp add: guess_of_content_def trim_def guess_a_cat_def isWhiteSpace_def)
  have m: "mock_log (guessImage env_with_key True small_png (At 5 (Resolves (Some guess_a_cat)))
       rand_zero rand_half) = None"
    by (simp add: guessImage_resolved[OF a b])
  have gg: "guess (response (guessImage env_with_key True small_png
       (At 5 (Resolves (Some guess_a_cat))) rand_zero rand_half)) = guess_a_cat"
    by (simp add: guessImage_resolved[OF a b] g1)
  have f: "filter (matches (ascii ''a kite'')) taxonomy = []"
    by (simp add: matches_def taxonomy_def ascii_def startsWith_def)
  have ts: "taxonomy_suggestions guess_a_cat
              = [[0x52A8, 0x7269], [0x5BA0, 0x7269], [0x54FA, 0x4E73, 0x52A8, 0x7269]]"
    by (simp add: taxonomy_suggestions_def matches_def taxonomy_def guess_a_cat_def
        startsWith_def)
  note t = suggestions_at_most_four[of env_with_key True small_png
      "At 5 (Resolves (Some guess_a_cat))" rand_zero rand_half guess_a_cat "ascii ''a kite''"
      "ascii ''image/png''" 7 rand_zero rand_zero rand_half]
  have s: "suggestions (response (guessImage env_with_key True small_png
       (At 5 (Resolves (Some guess_a_cat))) rand_zero rand_half))
       = Some [[0x52A8, 0x7269], [0x5BA0, 0x7269], [0x54FA, 0x4E73, 0x52A8, 0x7269]]"
    using t m by (simp add: gg ts)
  have k: "generateSmartSuggestions (ascii ''a kite'') = generic_suggestions"
    using t f by blast
  from m f s k show ?thesis by blast
qed

text \<open>
  C10. The server's fallback always carries the same list of four suggestions, whatever the
  image, the reason, the pool and the random values; so does every run of \<open>guessImage\<close> in
  which the fallback ran. \<open>generateSmartSuggestions\<close>, used on the remote path, never
  produces that list.
\<close>

theorem fallback_suggestions_fixed:
  "suggestions (getIntelligentMockResponse img reason r1 r2) = Some smartSuggestions
   \<and> length smartSuggestions = 4
   \<and> (mock_log (guessImage e hc img remote r1 r2) \<noteq> None \<longrightarrow>
        suggestions (response (guessImage e hc img remote r1 r2)) = Some smartSuggestions)
   \<and> generateSmartSuggestions g \<noteq> smartSuggestions"
proof (intro conjI impI)
  show "suggestions (getIntelligentMockResponse img reason r1 r2) = Some smartSuggestions"
    by (rule mock_fields(3))
  show "length smartSuggestions = 4" by (simp add: smartSuggestions_def)
  show "generateSmartSuggestions g \<noteq> smartSuggestions"
    by (rule generateSmartSuggestions_not_fixed)
next
  assume m: "mock_log (guessImage e hc img remote r1 r2) \<noteq> None"
  from guessImage_fallback_shape[OF m] obtain t where
    "response (guessImage e hc img remote r1 r2) =
       (getIntelligentMockResponse img None r1 r2)\<lparr>processingTime := t, success := True\<rparr>"
    by blast
  then show "suggestions (response (guessImage e hc img remote r1 r2)) = Some smartSuggestions"
    by (simp add: mock_fields)
qed

theorem fallback_suggestions_fixed_witness:
  "mock_log (guessImage env_with_key True small_png (At 5 (Rejects error_429))
       rand_half rand_zero) \<noteq> None
   \<and> suggestions (response (guessImage env_with_key True small_png (At 5 (Rejects error_429))
       rand_half rand_zero)) = Some smartSuggestions
   \<and> generateSmartSuggestions (guess (response (guessImage env_with_key True small_png
       (At 5 (Rejects error_429)) rand_half rand_zero))) \<noteq> smartSuggestions"
proof -
  have a: "key_present env_with_key" by (simp add: key_present_def env_with_key_def ascii_def)
  have b: "str_includes (ascii ''429 Too Many Requests'') (ascii ''429'')"
    by (simp add: ascii_def startsWith_def)
  have c: "\<not> str_includes (ascii ''429 Too Many Requests'') (ascii ''401'')"
    by (simp add: ascii_def startsWith_def)
  have d: "5 < configured_delay env_with_key"
    by (simp add: configured_delay_def env_with_key_def timer_delay_def)
  have m: "mock_log (guessImage env_with_key True small_png (At 5 (Rejects error_429))
       rand_half rand_zero) \<noteq> None"
    by (simp add: error_429_def guessImage_rate_limit[OF a b c d])
  note t = fallback_suggestions_fixed[of small_png None rand_half rand_zero env_with_key True
      "At 5 (Rejects error_429)"
      "guess (response (guessImage env_with_key True small_png
       (At 5 (Rejects error_429)) rand_half rand_zero))"]
  from t m show ?thesis by blast
qed

end
